theory Spec2Isabelle
  imports Main
begin

section \<open>Python strings and integer parsing\<close>

text \<open>
  A string is a list of characters with the code points 0 to 255; the helpers below follow
  Python's \<open>str.strip\<close>, \<open>str.split(sep)\<close>, \<open>str.lower\<close>, the substring test
  \<open>a in b\<close>, \<open>str(n)\<close> and \<open>int(s)\<close> on such strings. The white space that \<open>str.strip\<close>
  and \<open>int\<close> remove is, in this range, the control characters 9 to 13 and 28 to 31, the
  space, the next-line character 133 and the no-break space 160.
\<close>

definition py_isspace :: "char \<Rightarrow> bool" where
  "py_isspace c = (of_char c \<in> {9::nat, 10, 11, 12, 13, 28, 29, 30, 31, 32, 133, 160})"

definition py_strip :: "string \<Rightarrow> string" where
  "py_strip s = rev (dropWhile py_isspace (rev (dropWhile py_isspace s)))"

fun py_split :: "char \<Rightarrow> string \<Rightarrow> string list" where
  "py_split sep [] = [[]]"
| "py_split sep (c # cs) =
     (if c = sep then [] # py_split sep cs
      else (case py_split sep cs of [] \<Rightarrow> [[c]] | p # ps \<Rightarrow> (c # p) # ps))"

text \<open>The upper-case letters of the range are \<open>A\<close> to \<open>Z\<close> and the code points 192 to 222
  without the multiplication sign 215; each has its lower-case letter 32 places on.\<close>

definition py_lower_char :: "char \<Rightarrow> char" where
  "py_lower_char c =
     (case map_of (zip ''ABCDEFGHIJKLMNOPQRSTUVWXYZ'' ''abcdefghijklmnopqrstuvwxyz'') c of
        None \<Rightarrow>
          if (192::nat) \<le> of_char c \<and> of_char c \<le> (222::nat) \<and> of_char c \<noteq> (215::nat)
          then char_of (of_char c + (32::nat)) else c
      | Some l \<Rightarrow> l)"

definition py_lower :: "string \<Rightarrow> string" where
  "py_lower s = map py_lower_char s"

fun py_in :: "string \<Rightarrow> string \<Rightarrow> bool" where
  "py_in sub [] = (sub = [])"
| "py_in sub (c # cs) = (take (length sub) (c # cs) = sub \<or> py_in sub cs)"

definition is_digit :: "char \<Rightarrow> bool" where
  "is_digit c = (48 \<le> (of_char c :: nat) \<and> (of_char c :: nat) \<le> 57)"

definition digit_val :: "char \<Rightarrow> nat" where
  "digit_val c = of_char c - 48"

text \<open>Digits with single underscores between them, as \<open>int\<close> accepts.\<close>

fun parse_digits :: "nat \<Rightarrow> string \<Rightarrow> nat option" where
  "parse_digits acc [] = Some acc"
| "parse_digits acc [c] = (if is_digit c then Some (10 * acc + digit_val c) else None)"
| "parse_digits acc (c # d # cs) =
     (if is_digit c then parse_digits (10 * acc + digit_val c) (d # cs)
      else if c = CHR ''_'' \<and> is_digit d then parse_digits acc (d # cs)
      else None)"

definition py_int_digits :: "string \<Rightarrow> nat option" where
  "py_int_digits s =
     (case s of [] \<Rightarrow> None | c # cs \<Rightarrow> if is_digit c then parse_digits 0 s else None)"

text \<open>\<open>int(s)\<close>: \<open>None\<close> stands for the \<open>ValueError\<close>.\<close>

definition py_int :: "string \<Rightarrow> int option" where
  "py_int s =
     (case py_strip s of
        [] \<Rightarrow> None
      | c # cs \<Rightarrow>
          if c = CHR ''-'' then map_option (\<lambda>n. - int n) (py_int_digits cs)
          else if c = CHR ''+'' then map_option int (py_int_digits cs)
          else map_option int (py_int_digits (c # cs)))"

definition digit_char :: "nat \<Rightarrow> char" where
  "digit_char d = ''0123456789'' ! d"

fun py_str_nat :: "nat \<Rightarrow> string" where
  "py_str_nat n =
     (if n < 10 then [digit_char n]
      else py_str_nat (n div 10) @ [digit_char (n mod 10)])"

declare py_str_nat.simps [simp del]

section \<open>Oddball held time: \<open>time_to_seconds\<close>\<close>

text \<open>
  The argument is \<open>None\<close>, an integer or a string (the call sites pass the \<open>score\<close> display
  string of a player row). \<open>int(float(s))\<close>, reached for a string that is not of the form
  \<open>a:b\<close> or \<open>a:b:c\<close>, is the parameter \<open>float_int\<close> (\<open>None\<close> when it raises). The body of the
  \<open>try\<close> yields \<open>None\<close> when it raises; the bare \<open>except\<close> turns that into 0.
\<close>

datatype pyval = PyNone | PyInt int | PyStr string

definition time_to_seconds_try :: "(string \<Rightarrow> int option) \<Rightarrow> string \<Rightarrow> int option" where
  "time_to_seconds_try float_int s =
     (let t = py_strip s; parts = py_split CHR '':'' t in
      if CHR '':'' \<in> set t \<and> length parts = 2 then
        (case py_int (parts ! 0) of None \<Rightarrow> None
         | Some m \<Rightarrow> (case py_int (parts ! 1) of None \<Rightarrow> None
                     | Some sec \<Rightarrow> Some (m * 60 + sec)))
      else if CHR '':'' \<in> set t \<and> length parts = 3 then
        (case py_int (parts ! 0) of None \<Rightarrow> None
         | Some h \<Rightarrow> (case py_int (parts ! 1) of None \<Rightarrow> None
                     | Some m \<Rightarrow> (case py_int (parts ! 2) of None \<Rightarrow> None
                                 | Some sec \<Rightarrow> Some (h * 3600 + m * 60 + sec))))
      else float_int t)"

definition time_to_seconds :: "(string \<Rightarrow> int option) \<Rightarrow> pyval \<Rightarrow> int" where
  "time_to_seconds float_int v =
     (case v of
        PyNone \<Rightarrow> 0
      | PyInt n \<Rightarrow> n
      | PyStr s \<Rightarrow>
          if s = [] then 0
          else (case time_to_seconds_try float_int s of Some n \<Rightarrow> n | None \<Rightarrow> 0))"

text \<open>
  The variant of the backup script: an empty part counts as 0
  (\<open>int(parts[0]) if parts[0] else 0\<close>).
\<close>

definition int_or_zero :: "string \<Rightarrow> int option" where
  "int_or_zero p = (if p = [] then Some 0 else py_int p)"

definition backup_time_to_seconds_try :: "(string \<Rightarrow> int option) \<Rightarrow> string \<Rightarrow> int option" where
  "backup_time_to_seconds_try float_int s =
     (let t = py_strip s; parts = py_split CHR '':'' t in
      if CHR '':'' \<in> set t \<and> length parts = 2 then
        (case int_or_zero (parts ! 0) of None \<Rightarrow> None
         | Some m \<Rightarrow> (case int_or_zero (parts ! 1) of None \<Rightarrow> None
                     | Some sec \<Rightarrow> Some (m * 60 + sec)))
      else if CHR '':'' \<in> set t \<and> length parts = 3 then
        (case int_or_zero (parts ! 0) of None \<Rightarrow> None
         | Some h \<Rightarrow> (case int_or_zero (parts ! 1) of None \<Rightarrow> None
                     | Some m \<Rightarrow> (case int_or_zero (parts ! 2) of None \<Rightarrow> None
                                 | Some sec \<Rightarrow> Some (h * 3600 + m * 60 + sec))))
      else float_int t)"

definition backup_time_to_seconds :: "(string \<Rightarrow> int option) \<Rightarrow> pyval \<Rightarrow> int" where
  "backup_time_to_seconds float_int v =
     (case v of
        PyNone \<Rightarrow> 0
      | PyInt n \<Rightarrow> n
      | PyStr s \<Rightarrow>
          if s = [] then 0
          else (case backup_time_to_seconds_try float_int s of Some n \<Rightarrow> n | None \<Rightarrow> 0))"

section \<open>Rank lookup: \<open>calculate_rank\<close>\<close>

text \<open>
  \<open>rank_thresholds\<close> is the dictionary of the XP configuration, keyed by \<open>str(rank)\<close>, each
  value an inclusive band \<open>[min_xp, max_xp]\<close>. The loop runs over \<open>range(50, 0, -1)\<close>.
\<close>

type_synonym thresholds = "string \<rightharpoonup> int \<times> int"

fun rank_scan :: "nat \<Rightarrow> int \<Rightarrow> thresholds \<Rightarrow> nat" where
  "rank_scan 0 xp T = 1"
| "rank_scan (Suc n) xp T =
     (case T (py_str_nat (Suc n)) of
        None \<Rightarrow> rank_scan n xp T
      | Some (min_xp, max_xp) \<Rightarrow>
          if min_xp \<le> xp \<and> xp \<le> max_xp then Suc n else rank_scan n xp T)"

definition calculate_rank :: "int \<Rightarrow> thresholds \<Rightarrow> nat" where
  "calculate_rank xp T = rank_scan 50 xp T"

definition in_band :: "thresholds \<Rightarrow> nat \<Rightarrow> int \<Rightarrow> bool" where
  "in_band T r xp =
     (case T (py_str_nat r) of None \<Rightarrow> False | Some (lo, hi) \<Rightarrow> lo \<le> xp \<and> xp \<le> hi)"

definition band_max :: "thresholds \<Rightarrow> nat \<Rightarrow> int option" where
  "band_max T r = map_option snd (T (py_str_nat r))"

text \<open>A table of 50 contiguous bands of width 100, tier 50 ending at 4999.\<close>

definition example_thresholds :: thresholds where
  "example_thresholds =
     map_of (map (\<lambda>r. (py_str_nat r, (100 * (int r - 1), 100 * int r - 1))) [1 ..< 51])"

definition ordered_bands :: "thresholds \<Rightarrow> bool" where
  "ordered_bands T =
     (\<forall>s \<in> {1 .. 50}. \<forall>r \<in> {1 ..< s}.
        case (band_max T r, band_max T s) of (Some hr, Some hs) \<Rightarrow> hr \<le> hs | _ \<Rightarrow> True)"

definition covered :: "thresholds \<Rightarrow> int \<Rightarrow> bool" where
  "covered T xp = (\<exists>k \<in> {1 .. 50}. in_band T k xp)"

section \<open>Parsed games\<close>

text \<open>
  A game is the dictionary built by \<open>parse_excel_file\<close>, with the fields the ranking code
  reads: the \<open>Game Type\<close> and \<open>Variant Name\<close> details, the player rows of the post game
  report, the rows of the game statistics sheet, the source file and the playlist tag
  (\<open>None\<close> for an untagged game).
\<close>

record player_row =
  p_name :: string
  p_team :: string
  p_score :: string
  p_score_numeric :: int

record detailed_row =
  d_player :: string
  d_ctf_scores :: int

record game =
  g_game_type :: string
  g_variant_name :: string
  g_players :: "player_row list"
  g_detailed_stats :: "detailed_row list"
  g_source_file :: string
  g_playlist :: "string option"

section \<open>The processed-state ledger written at the end of a run\<close>

text \<open>
  The ledger maps a file name to its playlist or to \<open>null\<close>; \<open>dict.get\<close> gives \<open>None\<close> for
  a missing key and for a stored \<open>null\<close> alike.
\<close>

type_synonym ledger = "string \<rightharpoonup> string option"

definition ledger_get :: "ledger \<Rightarrow> string \<Rightarrow> string option" where
  "ledger_get m f = (case m f of None \<Rightarrow> None | Some v \<Rightarrow> v)"

definition ledger_step :: "bool \<Rightarrow> ledger \<Rightarrow> ledger \<times> game list \<Rightarrow> game \<Rightarrow> ledger \<times> game list" where
  "ledger_step needs_full_rebuild old_games acc g =
     (let filename = g_source_file g;
          new_playlist = g_playlist g;
          old_playlist = ledger_get old_games filename
      in if new_playlist = None \<and> old_playlist \<noteq> None \<and> \<not> needs_full_rebuild
         then ((fst acc)(filename \<mapsto> old_playlist), snd acc @ [g\<lparr>g_playlist := old_playlist\<rparr>])
         else ((fst acc)(filename \<mapsto> new_playlist), snd acc @ [g]))"

definition build_ledger :: "bool \<Rightarrow> ledger \<Rightarrow> game list \<Rightarrow> ledger \<times> game list" where
  "build_ledger needs_full_rebuild old_games all_games =
     foldl (ledger_step needs_full_rebuild old_games) (Map.empty, []) all_games"

section \<open>XP configuration and damping factors\<close>

text \<open>
  The factors of the XP configuration are JSON floats, and the XP change of a game is
  \<open>int(xp_win * win_factor)\<close>. The float type is left abstract as \<open>'f\<close>; the record
  \<open>float_ops\<close> supplies the two float constants the code writes (\<open>1.0\<close> and \<open>0.50\<close>) and
  the truncated product \<open>int(x * f)\<close>.
\<close>

record 'f float_ops =
  fl_one :: 'f
  fl_half :: 'f
  fl_int_mul :: "int \<Rightarrow> 'f \<Rightarrow> int"

record 'f xp_config =
  rank_thresholds :: thresholds
  game_win :: int
  game_loss :: int
  loss_factors :: "string \<rightharpoonup> 'f"
  win_factors :: "string \<rightharpoonup> 'f"

definition get_loss_factor :: "'f float_ops \<Rightarrow> nat \<Rightarrow> (string \<rightharpoonup> 'f) \<Rightarrow> 'f" where
  "get_loss_factor ops rank factors =
     (if rank \<ge> 30 then fl_one ops
      else (case factors (py_str_nat rank) of None \<Rightarrow> fl_one ops | Some f \<Rightarrow> f))"

definition get_win_factor :: "'f float_ops \<Rightarrow> nat \<Rightarrow> (string \<rightharpoonup> 'f) \<Rightarrow> 'f" where
  "get_win_factor ops rank factors =
     (if rank \<le> 40 then fl_one ops
      else (case factors (py_str_nat rank) of None \<Rightarrow> fl_half ops | Some f \<Rightarrow> f))"

definition win_xp_change :: "'f float_ops \<Rightarrow> 'f xp_config \<Rightarrow> nat \<Rightarrow> int" where
  "win_xp_change ops cfg rank_before =
     fl_int_mul ops (game_win cfg) (get_win_factor ops rank_before (win_factors cfg))"

definition loss_xp_change :: "'f float_ops \<Rightarrow> 'f xp_config \<Rightarrow> nat \<Rightarrow> int" where
  "loss_xp_change ops cfg rank_before =
     fl_int_mul ops (game_loss cfg) (get_loss_factor ops rank_before (loss_factors cfg))"

section \<open>Dedicated servers\<close>

definition is_dedicated_server :: "string \<Rightarrow> bool" where
  "is_dedicated_server player_name =
     (let name_lower = py_lower (py_strip player_name) in
      name_lower \<in> set [''statsdedi'', ''dedi'', ''dedicated'', ''server'']
      \<or> (py_in ''dedi'' name_lower \<and> length name_lower \<le> 15))"

section \<open>The outcome engine: \<open>determine_winners_losers\<close>\<close>

definition is_ctf_game :: "game \<Rightarrow> bool" where
  "is_ctf_game g =
     (let variant_name = py_lower (g_variant_name g); game_type = py_lower (g_game_type g) in
      py_in ''ctf'' variant_name \<or> py_in ''ctf'' game_type
      \<or> py_in ''capture'' game_type \<or> py_in ''flag'' variant_name)"

text \<open>The dictionary \<open>{s['player']: s for s in detailed_stats}\<close>: a later row replaces an
  earlier one of the same player.\<close>

definition detailed_lookup :: "detailed_row list \<Rightarrow> string \<rightharpoonup> detailed_row" where
  "detailed_lookup rows = map_of (rev (map (\<lambda>s. (d_player s, s)) rows))"

definition ctf_scores_of :: "(string \<rightharpoonup> detailed_row) \<Rightarrow> string \<Rightarrow> int" where
  "ctf_scores_of detailed name = (case detailed name of None \<Rightarrow> 0 | Some s \<Rightarrow> d_ctf_scores s)"

text \<open>\<open>teams\<close> maps a team name to its score and its player names, in row order.\<close>

type_synonym teams = "string \<rightharpoonup> int \<times> string list"

definition add_to_team :: "bool \<Rightarrow> (string \<rightharpoonup> detailed_row) \<Rightarrow> teams \<Rightarrow> player_row \<Rightarrow> teams" where
  "add_to_team use_ctf detailed teams player =
     (let team = py_strip (p_team player) in
      if team \<noteq> [] \<and> team \<in> set [''Red'', ''Blue''] then
        (let cur = (case teams team of None \<Rightarrow> (0, []) | Some t \<Rightarrow> t);
             pts = (if use_ctf then ctf_scores_of detailed (p_name player)
                    else p_score_numeric player)
         in teams(team \<mapsto> (fst cur + pts, snd cur @ [p_name player])))
      else teams)"

text \<open>
  \<open>is_ctf and detailed\<close> tests the dictionary, which is non-empty exactly when the game is
  CTF and has rows of detailed statistics.
\<close>

definition team_table :: "game \<Rightarrow> teams" where
  "team_table g =
     (let use_ctf = (is_ctf_game g \<and> g_detailed_stats g \<noteq> []);
          detailed = (if use_ctf then detailed_lookup (g_detailed_stats g) else Map.empty)
      in foldl (add_to_team use_ctf detailed) Map.empty (g_players g))"

definition team_score :: "game \<Rightarrow> string \<Rightarrow> int option" where
  "team_score g team = map_option fst (team_table g team)"

text \<open>
  Only \<open>Red\<close> and \<open>Blue\<close> are ever keys, so \<open>len(teams) == 2\<close> says that both are present;
  the descending sort by score puts the team with the higher score first.
\<close>

definition determine_winners_losers :: "game \<Rightarrow> string list \<times> string list" where
  "determine_winners_losers g =
     (case (team_table g ''Red'', team_table g ''Blue'') of
        (Some red, Some blue) \<Rightarrow>
          if fst red = fst blue then ([], [])
          else if fst blue < fst red then (snd red, snd blue)
          else (snd blue, snd red)
      | _ \<Rightarrow> ([], []))"

section \<open>The ranking replay\<close>

text \<open>
  The replay keeps, per in-game name and playlist, the dictionaries \<open>player_playlist_xp\<close>,
  \<open>_wins\<close>, \<open>_losses\<close>, \<open>_games\<close>, \<open>_rank\<close> and \<open>_highest_rank\<close>. In a rebuild from empty state
  they are created and filled together (all six for a name when it is first met, all six
  for a playlist at the player's first game in it), so they are one map from the name to a
  map from the playlist to a record of the six values. A name is a key of the outer map
  once its dictionaries exist.
\<close>

record standing =
  s_xp :: int
  s_rank :: nat
  s_highest_rank :: nat
  s_wins :: nat
  s_losses :: nat
  s_games :: nat

type_synonym tracker = "string \<rightharpoonup> (string \<rightharpoonup> standing)"

definition initial_standing :: standing where
  "initial_standing =
     \<lparr>s_xp = 0, s_rank = 1, s_highest_rank = 1, s_wins = 0, s_losses = 0, s_games = 0\<rparr>"

definition apply_result :: "'f float_ops \<Rightarrow> 'f xp_config \<Rightarrow> string list \<Rightarrow> string list \<Rightarrow> string \<Rightarrow> standing \<Rightarrow> standing" where
  "apply_result ops cfg winners losers player_name cur =
     (let rank_before = s_rank cur in
      if player_name \<in> set winners then
        cur\<lparr>s_wins := s_wins cur + 1, s_games := s_games cur + 1,
            s_xp := s_xp cur + win_xp_change ops cfg rank_before\<rparr>
      else if player_name \<in> set losers then
        (let x = s_xp cur + loss_xp_change ops cfg rank_before in
         cur\<lparr>s_losses := s_losses cur + 1, s_games := s_games cur + 1,
             s_xp := (if x < 0 then 0 else x)\<rparr>)
      else cur\<lparr>s_games := s_games cur + 1\<rparr>)"

definition update_rank :: "'f xp_config \<Rightarrow> standing \<Rightarrow> standing" where
  "update_rank cfg cur =
     (let new_rank = calculate_rank (s_xp cur) (rank_thresholds cfg) in
      cur\<lparr>s_rank := new_rank,
          s_highest_rank := (if new_rank > s_highest_rank cur then new_rank
                             else s_highest_rank cur)\<rparr>)"

definition process_player :: "'f float_ops \<Rightarrow> 'f xp_config \<Rightarrow> string list \<Rightarrow> string list \<Rightarrow> string \<Rightarrow> tracker \<Rightarrow> player_row \<Rightarrow> tracker" where
  "process_player ops cfg winners losers playlist tr player =
     (let player_name = p_name player in
      if is_dedicated_server player_name then tr
      else (case tr player_name of
              None \<Rightarrow> tr
            | Some pls \<Rightarrow>
                (let cur = (case pls playlist of None \<Rightarrow> initial_standing | Some st \<Rightarrow> st);
                     new = update_rank cfg (apply_result ops cfg winners losers player_name cur)
                 in tr(player_name \<mapsto> pls(playlist \<mapsto> new)))))"

definition process_game :: "'f float_ops \<Rightarrow> 'f xp_config \<Rightarrow> tracker \<Rightarrow> game \<Rightarrow> tracker" where
  "process_game ops cfg tr g =
     (let wl = determine_winners_losers g in
      case g_playlist g of
        None \<Rightarrow> tr
      | Some playlist \<Rightarrow>
          if playlist = [] then tr
          else foldl (process_player ops cfg (fst wl) (snd wl) playlist) tr (g_players g))"

definition replay :: "'f float_ops \<Rightarrow> 'f xp_config \<Rightarrow> tracker \<Rightarrow> game list \<Rightarrow> tracker" where
  "replay ops cfg tr games = foldl (process_game ops cfg) tr games"

text \<open>Reading an accumulator as \<open>dict.get(playlist, 0)\<close> does.\<close>

definition standing_of :: "tracker \<Rightarrow> string \<Rightarrow> string \<Rightarrow> standing option" where
  "standing_of tr player_name playlist =
     (case tr player_name of None \<Rightarrow> None | Some pls \<Rightarrow> pls playlist)"

definition xp_of :: "tracker \<Rightarrow> string \<Rightarrow> string \<Rightarrow> int" where
  "xp_of tr n pl = (case standing_of tr n pl of None \<Rightarrow> 0 | Some st \<Rightarrow> s_xp st)"

definition wins_of :: "tracker \<Rightarrow> string \<Rightarrow> string \<Rightarrow> nat" where
  "wins_of tr n pl = (case standing_of tr n pl of None \<Rightarrow> 0 | Some st \<Rightarrow> s_wins st)"

definition losses_of :: "tracker \<Rightarrow> string \<Rightarrow> string \<Rightarrow> nat" where
  "losses_of tr n pl = (case standing_of tr n pl of None \<Rightarrow> 0 | Some st \<Rightarrow> s_losses st)"

definition games_of :: "tracker \<Rightarrow> string \<Rightarrow> string \<Rightarrow> nat" where
  "games_of tr n pl = (case standing_of tr n pl of None \<Rightarrow> 0 | Some st \<Rightarrow> s_games st)"

definition highest_rank_of :: "tracker \<Rightarrow> string \<Rightarrow> string \<Rightarrow> nat" where
  "highest_rank_of tr n pl =
     (case standing_of tr n pl of None \<Rightarrow> 1 | Some st \<Rightarrow> s_highest_rank st)"



section \<open>Consolidation of aliases (step 4 of \<open>main\<close>)\<close>

text \<open>
  \<open>all_player_names\<close> is a Python set: the list \<open>names\<close> below is an enumeration of it, in
  the order the set happens to iterate. \<open>user_id_to_names[uid]\<close> collects the names whose
  \<open>player_to_id\<close> entry is \<open>uid\<close>; \<open>player_to_id[player_name]\<close> raises \<open>KeyError\<close> for a name
  without an entry, which is the value \<open>None\<close> of \<open>consolidate\<close>.
\<close>

definition user_id_to_names :: "(string \<rightharpoonup> string) \<Rightarrow> string list \<Rightarrow> string \<Rightarrow> string list" where
  "user_id_to_names player_to_id names uid = filter (\<lambda>n. player_to_id n = Some uid) names"

definition playlists_data :: "'f xp_config \<Rightarrow> tracker \<Rightarrow> string list \<Rightarrow> string \<rightharpoonup> standing" where
  "playlists_data cfg tr player_names playlist =
     (if \<exists>n \<in> set player_names. standing_of tr n playlist \<noteq> None then
        (let playlist_xp = sum_list (map (\<lambda>n. xp_of tr n playlist) player_names);
             playlist_highest = foldl max 1 (map (\<lambda>n. highest_rank_of tr n playlist) player_names);
             playlist_wins = sum_list (map (\<lambda>n. wins_of tr n playlist) player_names);
             playlist_losses = sum_list (map (\<lambda>n. losses_of tr n playlist) player_names);
             playlist_games = sum_list (map (\<lambda>n. games_of tr n playlist) player_names)
         in Some \<lparr>s_xp = playlist_xp,
                  s_rank = calculate_rank playlist_xp (rank_thresholds cfg),
                  s_highest_rank = playlist_highest,
                  s_wins = playlist_wins,
                  s_losses = playlist_losses,
                  s_games = playlist_games\<rparr>)
      else None)"

definition consolidate :: "'f xp_config \<Rightarrow> (string \<rightharpoonup> string) \<Rightarrow> string list \<Rightarrow> tracker \<Rightarrow> (string \<rightharpoonup> (string \<rightharpoonup> standing)) option" where
  "consolidate cfg player_to_id names tr =
     (if \<forall>n \<in> set names. player_to_id n \<noteq> None then
        Some (\<lambda>uid. let player_names = user_id_to_names player_to_id names uid in
                    if player_names = [] then None
                    else Some (playlists_data cfg tr player_names))
      else None)"

section \<open>Resolving names to identities (step 3 of \<open>main\<close>, rebuild from empty state)\<close>

text \<open>
  \<open>rankstats\<close> keeps, per identity, the Discord name, the \<open>mac_linked\<close> flag (absent, true
  or false) and the per-playlist standings. A name that does not resolve through the
  identity file and the MAC table gets the provisional identity
  \<open>str(abs(hash(player_name)) % 10**18)\<close>. Python salts the hash of a string anew in every
  interpreter process (unless \<open>PYTHONHASHSEED\<close> fixes it), so the hash function \<open>h\<close> is a
  parameter of a run.
\<close>

record rank_entry =
  discord_name :: string
  mac_linked :: "bool option"
  entry_playlists :: "string \<rightharpoonup> standing"

type_synonym rankstats = "string \<rightharpoonup> rank_entry"

record ident_state =
  player_to_id :: "string \<rightharpoonup> string"
  all_player_names :: "string list"
  id_rankstats :: rankstats
  id_tracker :: tracker

definition temp_id :: "(string \<Rightarrow> int) \<Rightarrow> string \<Rightarrow> string" where
  "temp_id h player_name = py_str_nat (nat (\<bar>h player_name\<bar> mod 10 ^ 18))"

definition resolve_player_to_discord :: "string \<Rightarrow> (string \<rightharpoonup> string) \<Rightarrow> (string \<rightharpoonup> string) \<Rightarrow> string option" where
  "resolve_player_to_discord player_name identity_name_to_mac mac_to_discord =
     (case identity_name_to_mac (py_lower (py_strip player_name)) of
        None \<Rightarrow> None
      | Some mac \<Rightarrow> mac_to_discord mac)"

definition unlinked_entry :: rank_entry where
  "unlinked_entry = \<lparr>discord_name = [], mac_linked = Some False, entry_playlists = Map.empty\<rparr>"

definition set_add :: "string \<Rightarrow> string list \<Rightarrow> string list" where
  "set_add x xs = (if x \<in> set xs then xs else xs @ [x])"

definition link_player :: "(string \<Rightarrow> int) \<Rightarrow> string \<Rightarrow> string option \<Rightarrow> ident_state \<Rightarrow> ident_state" where
  "link_player h player_name user_id st =
     (if user_id \<noteq> None \<and> user_id \<noteq> Some [] then
        (let old_temp_id = temp_id h player_name;
             rs = id_rankstats st
         in st\<lparr>player_to_id := (player_to_id st)(player_name := user_id),
               id_rankstats :=
                 (case rs old_temp_id of
                    None \<Rightarrow> rs
                  | Some e \<Rightarrow> if mac_linked e = Some False then rs(old_temp_id := None) else rs)\<rparr>)
      else
        st\<lparr>player_to_id := (player_to_id st)(player_name \<mapsto> temp_id h player_name),
           id_rankstats := (id_rankstats st)(temp_id h player_name \<mapsto> unlinked_entry)\<rparr>)"

definition identify_player :: "(string \<Rightarrow> int) \<Rightarrow> (string \<rightharpoonup> string) \<Rightarrow> (string \<rightharpoonup> string) \<Rightarrow> ident_state \<Rightarrow> player_row \<Rightarrow> ident_state" where
  "identify_player h identity_name_to_mac mac_to_discord st player =
     (let player_name = p_name player in
      if is_dedicated_server player_name then st
      else
        (let st1 = st\<lparr>all_player_names := set_add player_name (all_player_names st)\<rparr> in
         if player_to_id st1 player_name \<noteq> None then st1
         else
           (let user_id = resolve_player_to_discord player_name identity_name_to_mac mac_to_discord;
                st2 = link_player h player_name user_id st1
            in if id_tracker st2 player_name = None
               then st2\<lparr>id_tracker := (id_tracker st2)(player_name \<mapsto> Map.empty)\<rparr>
               else st2)))"

text \<open>\<open>identity_for\<close> gives the name-to-MAC table in force for a game file (the identity
  file of its session, or the combined table).\<close>

definition identify_game :: "(string \<Rightarrow> int) \<Rightarrow> (string \<Rightarrow> (string \<rightharpoonup> string)) \<Rightarrow> (string \<rightharpoonup> string) \<Rightarrow> ident_state \<Rightarrow> game \<Rightarrow> ident_state" where
  "identify_game h identity_for mac_to_discord st g =
     foldl (identify_player h (identity_for (g_source_file g)) mac_to_discord) st (g_players g)"

definition identify_all :: "(string \<Rightarrow> int) \<Rightarrow> (string \<Rightarrow> (string \<rightharpoonup> string)) \<Rightarrow> (string \<rightharpoonup> string) \<Rightarrow> rankstats \<Rightarrow> game list \<Rightarrow> ident_state" where
  "identify_all h identity_for mac_to_discord rs all_games =
     foldl (identify_game h identity_for mac_to_discord)
       \<lparr>player_to_id = Map.empty, all_player_names = [], id_rankstats = rs,
        id_tracker = Map.empty\<rparr> all_games"

text \<open>The ranked games: those of the four playlists, playlist by playlist.\<close>

definition ranked_games :: "game list \<Rightarrow> game list" where
  "ranked_games all_games =
     concat (map (\<lambda>pl. filter (\<lambda>g. g_playlist g = Some pl) all_games)
       [''MLG 4v4'', ''Team Hardcore'', ''Double Team'', ''Head to Head''])"

text \<open>A full rebuild: resolve the names, replay the ranked games from empty accumulators,
  consolidate per identity.\<close>

definition rebuild_standings :: "(string \<Rightarrow> int) \<Rightarrow> (string \<Rightarrow> (string \<rightharpoonup> string)) \<Rightarrow> (string \<rightharpoonup> string) \<Rightarrow> rankstats \<Rightarrow> 'f float_ops \<Rightarrow> 'f xp_config \<Rightarrow> game list \<Rightarrow> (string \<rightharpoonup> (string \<rightharpoonup> standing)) option" where
  "rebuild_standings h identity_for mac_to_discord rs ops cfg all_games =
     (let st = identify_all h identity_for mac_to_discord rs all_games;
          tr = replay ops cfg (id_tracker st) (ranked_games all_games)
      in consolidate cfg (player_to_id st) (all_player_names st) tr)"

definition user_standing :: "(string \<rightharpoonup> (string \<rightharpoonup> standing)) option \<Rightarrow> string \<Rightarrow> string \<Rightarrow> standing option" where
  "user_standing result uid playlist =
     (case result of
        None \<Rightarrow> None
      | Some r \<Rightarrow> (case r uid of None \<Rightarrow> None | Some pd \<Rightarrow> pd playlist))"

section \<open>Example configuration and games\<close>

text \<open>Factors as whole percentages, the product truncated toward zero as \<open>int\<close> does.\<close>

definition example_ops :: "nat float_ops" where
  "example_ops =
     \<lparr>fl_one = 100, fl_half = 50,
      fl_int_mul = (\<lambda>x p. if 0 \<le> x then (x * int p) div 100 else - ((- x * int p) div 100))\<rparr>"

definition example_cfg :: "nat xp_config" where
  "example_cfg =
     \<lparr>rank_thresholds = example_thresholds, game_win = 100, game_loss = - 100,
      loss_factors = [''1'' \<mapsto> 0, ''2'' \<mapsto> 10], win_factors = [''50'' \<mapsto> 25]\<rparr>"

definition row :: "string \<Rightarrow> string \<Rightarrow> string \<Rightarrow> int \<Rightarrow> player_row" where
  "row name team score n = \<lparr>p_name = name, p_team = team, p_score = score, p_score_numeric = n\<rparr>"

definition slayer_game :: "string \<Rightarrow> string option \<Rightarrow> player_row list \<Rightarrow> game" where
  "slayer_game file playlist players =
     \<lparr>g_game_type = ''Slayer'', g_variant_name = ''Team Slayer'', g_players = players,
      g_detailed_stats = [], g_source_file = file, g_playlist = playlist\<rparr>"

definition example_win :: game where
  "example_win = slayer_game ''20251128_201839.xlsx'' (Some ''Double Team'')
     [row ''a1'' ''Red'' ''25'' 25, row ''a2'' ''Red'' ''25'' 25,
      row ''b1'' ''Blue'' ''10'' 10, row ''b2'' ''Blue'' ''10'' 10]"

definition example_tie :: game where
  "example_tie = slayer_game ''20251128_202256.xlsx'' (Some ''Double Team'')
     [row ''a1'' ''Red'' ''25'' 25, row ''a2'' ''Red'' ''25'' 25,
      row ''b1'' ''Blue'' ''30'' 30, row ''b2'' ''Blue'' ''20'' 20]"



section \<open>The playlist classifier of the backup script\<close>

text \<open>
  What \<open>determine_playlist\<close> of \<open>BACKUPpopulate_stats.py\<close> reads of a game file: its path,
  the first row of the \<open>Game Details\<close> sheet (\<open>None\<close> when the sheet cannot be read or has
  no row), the number of rows of the \<open>Post Game Report\<close> sheet and its \<open>team\<close> column
  (\<open>None\<close> when they cannot be read). The cells are given as \<open>str\<close> shows them; a score
  cell is \<open>None\<close> when \<open>int(cell or 0)\<close> raises.
\<close>

record details_row =
  dr_duration :: string
  dr_map_name :: string
  dr_game_type :: string
  dr_red_score :: "int option"
  dr_blue_score :: "int option"

record stats_file =
  sf_path :: string
  sf_details :: "details_row option"
  sf_player_rows :: "nat option"
  sf_teams :: "string list option"

text \<open>A manual override file is a JSON object from file names to a string or \<open>null\<close>.\<close>

type_synonym manual = "string \<rightharpoonup> string option"

definition dict_get :: "manual \<Rightarrow> string \<Rightarrow> string option" where
  "dict_get m k = (case m k of None \<Rightarrow> None | Some v \<Rightarrow> v)"

definition basename :: "string \<Rightarrow> string" where
  "basename p = rev (takeWhile (\<lambda>c. c \<noteq> CHR ''/'') (rev p))"

definition PLAYLIST_MLG_4V4 :: string where
  "PLAYLIST_MLG_4V4 = ''MLG 4v4''"

definition PLAYLIST_TEAM_HARDCORE :: string where
  "PLAYLIST_TEAM_HARDCORE = ''Team Hardcore''"

definition PLAYLIST_DOUBLE_TEAM :: string where
  "PLAYLIST_DOUBLE_TEAM = ''Double Team''"

definition PLAYLIST_HEAD_TO_HEAD :: string where
  "PLAYLIST_HEAD_TO_HEAD = ''Head to Head''"

definition PLAYLIST_ALIASES :: "(string \<times> string) list" where
  "PLAYLIST_ALIASES =
     [(''Ranked MLG 4v4'', PLAYLIST_MLG_4V4),
      (''Ranked Team Hardcore'', PLAYLIST_TEAM_HARDCORE),
      (''Ranked Double Team'', PLAYLIST_DOUBLE_TEAM),
      (''Ranked Head to Head'', PLAYLIST_HEAD_TO_HEAD)]"

definition normalize_playlist_name :: "string option \<Rightarrow> string option" where
  "normalize_playlist_name playlist =
     (case playlist of
        None \<Rightarrow> None
      | Some p \<Rightarrow>
          if p = [] then None
          else (case map_of PLAYLIST_ALIASES p of None \<Rightarrow> Some p | Some c \<Rightarrow> Some c))"

definition VALID_MLG_4V4_COMBOS :: "(string \<times> string list) list" where
  "VALID_MLG_4V4_COMBOS =
     [(''Midship'', [''ctf'', ''slayer'', ''oddball'', ''assault'']),
      (''Beaver Creek'', [''ctf'', ''slayer'']),
      (''Lockout'', [''slayer'', ''oddball'']),
      (''Warlock'', [''ctf'', ''slayer'', ''oddball'']),
      (''Sanctuary'', [''ctf'', ''slayer''])]"

definition gametype_aliases :: "(string \<times> string) list" where
  "gametype_aliases =
     [(''capture_the_flag'', ''ctf''), (''king_of_the_hill'', ''koth''), (''king'', ''koth'')]"

definition is_valid_mlg_combo :: "string \<Rightarrow> string \<Rightarrow> bool" where
  "is_valid_mlg_combo map_name base_gametype =
     (case map_of VALID_MLG_4V4_COMBOS map_name of
        None \<Rightarrow> False
      | Some valid_gametypes \<Rightarrow>
          (let base_gametype_lower = py_lower base_gametype;
               normalized_gametype =
                 (case map_of gametype_aliases base_gametype_lower of
                    None \<Rightarrow> base_gametype_lower | Some a \<Rightarrow> a)
           in list_ex (\<lambda>valid_type. py_in valid_type normalized_gametype
                                  \<or> py_in normalized_gametype valid_type) valid_gametypes))"

definition parse_duration_seconds :: "string \<Rightarrow> int" where
  "parse_duration_seconds duration_str =
     (if duration_str = [] then 0
      else
        (let parts = py_split CHR '':'' duration_str in
         if length parts = 2 then
           (case py_int (parts ! 0) of None \<Rightarrow> 0
            | Some minutes \<Rightarrow> (case py_int (parts ! 1) of None \<Rightarrow> 0
                              | Some seconds \<Rightarrow> minutes * 60 + seconds))
         else if length parts = 3 then
           (case py_int (parts ! 0) of None \<Rightarrow> 0
            | Some hours \<Rightarrow> (case py_int (parts ! 1) of None \<Rightarrow> 0
                | Some minutes \<Rightarrow> (case py_int (parts ! 2) of None \<Rightarrow> 0
                    | Some seconds \<Rightarrow> hours * 3600 + minutes * 60 + seconds)))
         else 0))"

definition get_game_duration_seconds :: "stats_file \<Rightarrow> int" where
  "get_game_duration_seconds f =
     (case sf_details f of None \<Rightarrow> 0 | Some r \<Rightarrow> parse_duration_seconds (dr_duration r))"

definition MIN_GAME_DURATION_SECONDS :: int where
  "MIN_GAME_DURATION_SECONDS = 120"

definition is_game_long_enough :: "stats_file \<Rightarrow> bool" where
  "is_game_long_enough f = (get_game_duration_seconds f \<ge> MIN_GAME_DURATION_SECONDS)"

definition get_game_player_count :: "stats_file \<Rightarrow> nat" where
  "get_game_player_count f = (case sf_player_rows f of None \<Rightarrow> 0 | Some n \<Rightarrow> n)"

definition is_team_game :: "stats_file \<Rightarrow> bool" where
  "is_team_game f =
     (case sf_teams f of None \<Rightarrow> False | Some teams \<Rightarrow> ''Red'' \<in> set teams \<and> ''Blue'' \<in> set teams)"

text \<open>
  The validity test of a two-player game. The code computes
  \<open>duration_mins = int(parts[0]) + int(parts[1]) / 60\<close> in floating point, with
  \<open>duration_mins = 0\<close> when a part does not parse or the arithmetic raises \<open>OverflowError\<close>, and
  tests \<open>duration_mins >= 14\<close>. The float arithmetic is the parameter \<open>mins_ge_14\<close>:
  \<open>mins_ge_14 m s\<close> is the value of \<open>m + s / 60 >= 14\<close>, and \<open>None\<close> when the expression raises.
\<close>

definition head_to_head_check :: "(int \<Rightarrow> int \<Rightarrow> bool option) \<Rightarrow> stats_file \<Rightarrow> string option" where
  "head_to_head_check mins_ge_14 f =
     (case sf_details f of
        None \<Rightarrow> None
      | Some r \<Rightarrow>
          (case dr_red_score r of
             None \<Rightarrow> None
           | Some red_score \<Rightarrow>
               (case dr_blue_score r of
                  None \<Rightarrow> None
                | Some blue_score \<Rightarrow>
                    (let max_score = max red_score blue_score;
                         parts = py_split CHR '':'' (dr_duration r);
                         long_game =
                           (if length parts = 2 then
                              (case py_int (parts ! 0) of None \<Rightarrow> False
                               | Some m \<Rightarrow> (case py_int (parts ! 1) of None \<Rightarrow> False
                                           | Some s \<Rightarrow> (case mins_ge_14 m s of
                                                          None \<Rightarrow> False
                                                        | Some b \<Rightarrow> b)))
                            else False)
                     in if max_score > 15 then None
                        else if max_score = 15 \<or> long_game
                        then Some PLAYLIST_HEAD_TO_HEAD
                        else None))))"

text \<open>The comparison made exactly, on whole seconds; the float computation agrees with it
  for parts below \<open>2^31\<close> in size.\<close>

definition exact_mins_ge_14 :: "int \<Rightarrow> int \<Rightarrow> bool option" where
  "exact_mins_ge_14 m s = Some (60 * m + s \<ge> 840)"

text \<open>
  \<open>determine_playlist\<close> of the backup script. Its parameters \<open>all_matches\<close>,
  \<open>ingame_to_discord_id\<close> and \<open>debug\<close> do not reach the result; \<open>mins_ge_14\<close> is the float
  comparison of the two-player test. \<open>manual_unranked and filename
  in manual_unranked\<close> is membership alone: a dictionary with a key is not empty.
\<close>

definition backup_determine_playlist :: "(int \<Rightarrow> int \<Rightarrow> bool option) \<Rightarrow> stats_file \<Rightarrow> manual \<Rightarrow> manual \<Rightarrow> string option" where
  "backup_determine_playlist mins_ge_14 f manual_playlists manual_unranked =
     (let filename = basename (sf_path f) in
      if filename \<in> dom manual_unranked then None
      else if filename \<in> dom manual_playlists
      then normalize_playlist_name (dict_get manual_playlists filename)
      else if \<not> is_game_long_enough f then None
      else
        (let player_count = get_game_player_count f;
             is_team = is_team_game f;
             map_name = (case sf_details f of None \<Rightarrow> [] | Some r \<Rightarrow> py_strip (dr_map_name r));
             base_gametype =
               (case sf_details f of None \<Rightarrow> [] | Some r \<Rightarrow> py_strip (dr_game_type r))
         in if player_count \<ge> 3 \<and> \<not> is_team then None
            else if player_count = 8 \<and> is_team \<and> is_valid_mlg_combo map_name base_gametype
            then Some PLAYLIST_MLG_4V4
            else if player_count = 4 \<and> is_team then Some PLAYLIST_DOUBLE_TEAM
            else if player_count = 2 then head_to_head_check mins_ge_14 f
            else None))"

definition example_file :: stats_file where
  "example_file =
     \<lparr>sf_path = ''/home/carnagereport/stats/20251215_011357.xlsx'',
      sf_details = Some \<lparr>dr_duration = ''12:34'', dr_map_name = ''Midship'',
                         dr_game_type = ''CTF'', dr_red_score = Some 3, dr_blue_score = Some 1\<rparr>,
      sf_player_rows = Some 8,
      sf_teams = Some [''Red'', ''Blue'', ''Red'', ''Blue'', ''Red'', ''Blue'', ''Red'', ''Blue'']\<rparr>"

section \<open>Change detection and the processing mode\<close>

text \<open>
  \<open>processed_state.json\<close>: the ledger \<open>games\<close>, the stored hashes of the manual override
  files (the empty string when the key is absent; the backup script alone stores the second)
  and whether a non-empty \<open>player_state\<close> is saved. The hash of a manual file (MD5 of its JSON
  dump) is a parameter. \<open>changed_playlists\<close> is a dictionary from the file name to the old
  and the new playlist.
\<close>

record processed_state =
  ps_games :: ledger
  ps_manual_playlists_hash :: string
  ps_manual_unranked_hash :: string
  ps_player_state_saved :: bool

type_synonym changes = "(string \<times> string option \<times> string option) list"

fun dict_set :: "string \<Rightarrow> string option \<times> string option \<Rightarrow> changes \<Rightarrow> changes" where
  "dict_set k v [] = [(k, v)]"
| "dict_set k v (p # ps) = (if fst p = k then (k, v) # ps else p # dict_set k v ps)"

definition check_file :: "ledger \<Rightarrow> (string \<Rightarrow> string option) \<Rightarrow> string list \<times> changes \<Rightarrow> string \<Rightarrow> string list \<times> changes" where
  "check_file old_games new_playlist_of acc filename =
     (let old_playlist = ledger_get old_games filename;
          new_playlist = new_playlist_of filename
      in if filename \<notin> dom old_games then (fst acc @ [filename], snd acc)
         else if old_playlist \<noteq> new_playlist
         then (fst acc, dict_set filename (old_playlist, new_playlist) (snd acc))
         else acc)"

definition check_for_changes :: "(manual \<Rightarrow> string) \<Rightarrow> string list \<Rightarrow> manual \<Rightarrow> processed_state \<Rightarrow> bool \<times> string list \<times> changes" where
  "check_for_changes get_manual_playlists_hash stats_files manual_playlists processed_state =
     (let old_games = ps_games processed_state;
          old_hash = ps_manual_playlists_hash processed_state;
          new_hash = get_manual_playlists_hash manual_playlists;
          acc = foldl (check_file old_games (dict_get manual_playlists)) ([], []) stats_files;
          new_files = fst acc;
          changed_playlists = snd acc;
          needs_full_rebuild = (length changed_playlists > 0)
      in (needs_full_rebuild, new_files, changed_playlists))"

definition backup_check_for_changes :: "(manual \<Rightarrow> string) \<Rightarrow> string list \<Rightarrow> manual \<Rightarrow> manual \<Rightarrow> processed_state \<Rightarrow> bool \<times> string list \<times> changes" where
  "backup_check_for_changes get_manual_hash stats_files manual_playlists manual_unranked processed_state =
     (let old_games = ps_games processed_state;
          old_playlists_hash = ps_manual_playlists_hash processed_state;
          new_playlists_hash = get_manual_hash manual_playlists;
          playlists_changed = (old_playlists_hash \<noteq> new_playlists_hash);
          old_unranked_hash = ps_manual_unranked_hash processed_state;
          new_unranked_hash = get_manual_hash manual_unranked;
          unranked_changed = (old_unranked_hash \<noteq> new_unranked_hash);
          acc = foldl (check_file old_games
                  (\<lambda>filename. if filename \<in> dom manual_unranked then None
                              else dict_get manual_playlists filename)) ([], []) stats_files;
          new_files = fst acc;
          changed_playlists = snd acc;
          needs_full_rebuild = (length changed_playlists > 0 \<or> playlists_changed \<or> unranked_changed)
      in (needs_full_rebuild, new_files, changed_playlists))"

text \<open>
  The mode \<open>main\<close> goes on in. \<open>FullRebuild\<close> and \<open>FullProcessing\<close> both start from zeroed
  statistics; \<open>Incremental\<close> restores the saved player state and processes the new files
  only; \<open>NothingToProcess\<close> is the early return.
\<close>

datatype run_mode = NothingToProcess | FullRebuild | Incremental | FullProcessing

definition processing_mode :: "bool \<Rightarrow> string list \<Rightarrow> bool \<Rightarrow> run_mode" where
  "processing_mode needs_full_rebuild new_files saved_player_state =
     (let incremental_mode = (\<not> needs_full_rebuild \<and> length new_files > 0) in
      if needs_full_rebuild then FullRebuild
      else if incremental_mode \<and> saved_player_state then Incremental
      else FullProcessing)"

definition main_mode :: "(manual \<Rightarrow> string) \<Rightarrow> bool \<Rightarrow> string list \<Rightarrow> manual \<Rightarrow> processed_state \<Rightarrow> run_mode" where
  "main_mode get_manual_playlists_hash force_rebuild stats_files manual_playlists processed_state =
     (if force_rebuild then processing_mode True stats_files False
      else
        (case check_for_changes get_manual_playlists_hash stats_files manual_playlists
                processed_state of
           (needs_full_rebuild, new_files, changed_playlists) \<Rightarrow>
             if new_files = [] \<and> changed_playlists = [] then NothingToProcess
             else processing_mode needs_full_rebuild new_files
                    (ps_player_state_saved processed_state)))"

definition backup_main_mode :: "(manual \<Rightarrow> string) \<Rightarrow> string list \<Rightarrow> manual \<Rightarrow> manual \<Rightarrow> processed_state \<Rightarrow> run_mode" where
  "backup_main_mode get_manual_hash stats_files manual_playlists manual_unranked processed_state =
     (case backup_check_for_changes get_manual_hash stats_files manual_playlists manual_unranked
             processed_state of
        (needs_full_rebuild, new_files, changed_playlists) \<Rightarrow>
          if new_files = [] \<and> changed_playlists = [] \<and> \<not> needs_full_rebuild
          then NothingToProcess
          else processing_mode needs_full_rebuild new_files
                 (ps_player_state_saved processed_state))"

definition example_state :: "string \<Rightarrow> processed_state" where
  "example_state old_hash =
     \<lparr>ps_games = [''20251128_201839.xlsx'' \<mapsto> Some ''MLG 4v4''],
      ps_manual_playlists_hash = old_hash, ps_manual_unranked_hash = [],
      ps_player_state_saved = True\<rparr>"

definition example_manual :: manual where
  "example_manual =
     [''20251128_201839.xlsx'' \<mapsto> Some ''MLG 4v4'',
      ''20251214_170353.xlsx'' \<mapsto> Some ''Tournament 1'']"

section \<open>The per-playlist match log\<close>

text \<open>
  The entry written for a game of a playlist, with the fields that carry the result: the two
  team scores and \<open>winner\<close>. \<open>rankstats[user_id].get('discord_name') or player_name\<close> falls
  back to the in-game name when the Discord name is missing or empty.
\<close>

definition get_display_name :: "(string \<rightharpoonup> string) \<Rightarrow> rankstats \<Rightarrow> string \<Rightarrow> string" where
  "get_display_name p2id rs player_name =
     (case p2id player_name of
        None \<Rightarrow> player_name
      | Some user_id \<Rightarrow>
          if user_id \<noteq> [] \<and> user_id \<in> dom rs then
            (case rs user_id of
               None \<Rightarrow> player_name
             | Some e \<Rightarrow> if discord_name e \<noteq> [] then discord_name e else player_name)
          else player_name)"

definition is_oddball_game :: "game \<Rightarrow> bool" where
  "is_oddball_game g =
     (let variant_name = py_lower (g_variant_name g); game_type = py_lower (g_game_type g) in
      py_in ''oddball'' variant_name \<or> py_in ''oddball'' game_type \<or> py_in ''ball'' game_type)"

definition team_members :: "game \<Rightarrow> string \<Rightarrow> player_row list" where
  "team_members g team = filter (\<lambda>p. p_team p = team) (g_players g)"

definition log_team_score :: "(string \<Rightarrow> int option) \<Rightarrow> game \<Rightarrow> string \<Rightarrow> int" where
  "log_team_score float_int g team =
     (if is_ctf_game g \<and> g_detailed_stats g \<noteq> [] then
        (let detailed = detailed_lookup (g_detailed_stats g) in
         sum_list (map (\<lambda>p. ctf_scores_of detailed (p_name p)) (team_members g team)))
      else if is_oddball_game g then
        sum_list (map (\<lambda>p. time_to_seconds float_int (PyStr (p_score p))) (team_members g team))
      else sum_list (map p_score_numeric (team_members g team)))"

definition winner_team :: "(string \<rightharpoonup> string) \<Rightarrow> rankstats \<Rightarrow> game \<Rightarrow> string" where
  "winner_team p2id rs g =
     (let winners = fst (determine_winners_losers g);
          red_team = map (\<lambda>p. get_display_name p2id rs (p_name p)) (team_members g ''Red'')
      in if list_ex (\<lambda>p. p \<in> set red_team) winners then ''Red''
         else if winners \<noteq> [] then ''Blue''
         else ''Tie'')"

record match_entry =
  me_red_score :: int
  me_blue_score :: int
  me_winner :: string

definition build_match_entry :: "(string \<Rightarrow> int option) \<Rightarrow> (string \<rightharpoonup> string) \<Rightarrow> rankstats \<Rightarrow> string \<Rightarrow> game \<Rightarrow> match_entry" where
  "build_match_entry float_int p2id rs playlist_name g =
     (let winners = fst (determine_winners_losers g) in
      \<lparr>me_red_score = log_team_score float_int g ''Red'',
       me_blue_score = log_team_score float_int g ''Blue'',
       me_winner =
         (if playlist_name = PLAYLIST_HEAD_TO_HEAD
          then (if winners \<noteq> [] then hd winners else ''Tie'')
          else winner_team p2id rs g)\<rparr>)"

definition linked_ids :: "string \<rightharpoonup> string" where
  "linked_ids =
     [''a1'' \<mapsto> ''210187331066396672'', ''a2'' \<mapsto> ''310187331066396673'',
      ''b1'' \<mapsto> ''410187331066396674'', ''b2'' \<mapsto> ''510187331066396675'']"

definition linked_entry :: "string \<Rightarrow> rank_entry" where
  "linked_entry name = \<lparr>discord_name = name, mac_linked = None, entry_playlists = Map.empty\<rparr>"

definition linked_rankstats :: rankstats where
  "linked_rankstats =
     [''210187331066396672'' \<mapsto> linked_entry ''Alice'',
      ''310187331066396673'' \<mapsto> linked_entry ''Arthur'',
      ''410187331066396674'' \<mapsto> linked_entry ''Bob'',
      ''510187331066396675'' \<mapsto> linked_entry ''Bea'']"

section \<open>Two runs of the script\<close>

text \<open>
  The string hash of two interpreter processes on the names of the example game: each
  process draws its own salt.
\<close>

definition first_run_hash :: "string \<Rightarrow> int" where
  "first_run_hash n =
     (case map_of [(''a1'', 7001), (''a2'', - 7002), (''b1'', 7003), (''b2'', 7004)] n of
        None \<Rightarrow> 0 | Some v \<Rightarrow> v)"

definition second_run_hash :: "string \<Rightarrow> int" where
  "second_run_hash n =
     (case map_of [(''a1'', - 9001), (''a2'', 9002), (''b1'', 9003), (''b2'', 9004)] n of
        None \<Rightarrow> 0 | Some v \<Rightarrow> v)"

section \<open>Reading an accumulator's rank\<close>

definition rank_of :: "tracker \<Rightarrow> string \<Rightarrow> string \<Rightarrow> nat" where
  "rank_of tr n pl = (case standing_of tr n pl of None \<Rightarrow> 1 | Some st \<Rightarrow> s_rank st)"

text \<open>A configuration without damping tables: a win is worth 100, a loss costs 150.\<close>

definition harsh_cfg :: "nat xp_config" where
  "harsh_cfg =
     \<lparr>rank_thresholds = example_thresholds, game_win = 100, game_loss = - 150,
      loss_factors = Map.empty, win_factors = Map.empty\<rparr>"

definition example_upset :: game where
  "example_upset = slayer_game ''20251128_195500.xlsx'' (Some ''Double Team'')
     [row ''a1'' ''Red'' ''10'' 10, row ''a2'' ''Red'' ''10'' 10,
      row ''b1'' ''Blue'' ''25'' 25, row ''b2'' ''Blue'' ''25'' 25]"

definition fresh_tracker :: tracker where
  "fresh_tracker =
     [''a1'' \<mapsto> Map.empty, ''a2'' \<mapsto> Map.empty, ''b1'' \<mapsto> Map.empty, ''b2'' \<mapsto> Map.empty]"

section \<open>The playlist classifier of \<open>populate_stats.py\<close> and the ledger of a run\<close>

text \<open>
  A bot match carries the playlist the loader stored as \<open>_playlist\<close> and its \<open>playlist_name\<close>
  field. \<open>find_match_for_game\<close>, which matches a game file to a bot match by time window and
  player identities, is a parameter; \<open>all_matches\<close> is the empty list when no bot file could
  be loaded.
\<close>

record bot_match =
  bm_playlist :: "string option"
  bm_playlist_name :: "string option"

definition matched_playlist :: "bot_match \<Rightarrow> string option" where
  "matched_playlist matched_entry =
     (case bm_playlist matched_entry of
        None \<Rightarrow> bm_playlist_name matched_entry
      | Some p \<Rightarrow> if p \<noteq> [] then Some p else bm_playlist_name matched_entry)"

definition determine_playlist :: "(stats_file \<Rightarrow> bot_match list \<Rightarrow> bot_match option) \<Rightarrow> stats_file \<Rightarrow> bot_match list \<Rightarrow> manual \<Rightarrow> string option" where
  "determine_playlist find_match_for_game f all_matches manual_playlists =
     (let filename = basename (sf_path f) in
      if filename \<in> dom manual_playlists
      then normalize_playlist_name (dict_get manual_playlists filename)
      else if \<not> is_game_long_enough f then None
      else
        (let player_count = get_game_player_count f;
             is_team = is_team_game f;
             map_name = (case sf_details f of None \<Rightarrow> [] | Some r \<Rightarrow> py_strip (dr_map_name r));
             base_gametype =
               (case sf_details f of None \<Rightarrow> [] | Some r \<Rightarrow> py_strip (dr_game_type r))
         in if all_matches \<noteq> [] then
              (case find_match_for_game f all_matches of
                 None \<Rightarrow> None
               | Some matched_entry \<Rightarrow>
                   (let playlist = normalize_playlist_name (matched_playlist matched_entry) in
                    if playlist = Some PLAYLIST_HEAD_TO_HEAD then
                      (if player_count = 2 then Some PLAYLIST_HEAD_TO_HEAD else None)
                    else if playlist = Some PLAYLIST_DOUBLE_TEAM then
                      (if player_count = 4 \<and> is_team then Some PLAYLIST_DOUBLE_TEAM else None)
                    else if playlist = Some PLAYLIST_MLG_4V4
                            \<or> playlist = Some PLAYLIST_TEAM_HARDCORE then
                      (if player_count = 8 \<and> is_team \<and> is_valid_mlg_combo map_name base_gametype
                       then playlist else None)
                    else None))
            else None))"

text \<open>
  Step 2 of \<open>main\<close> tags every game file: the parsed game gets the file name as
  \<open>source_file\<close> and the classifier's result as \<open>playlist\<close>. The files come with their parsed
  games, in the sorted order of the file names.
\<close>

definition tag_game :: "(stats_file \<Rightarrow> bot_match list \<Rightarrow> bot_match option) \<Rightarrow> bot_match list \<Rightarrow> manual \<Rightarrow> stats_file \<times> game \<Rightarrow> game" where
  "tag_game find_match_for_game all_matches manual_playlists fg =
     (snd fg)\<lparr>g_source_file := basename (sf_path (fst fg)),
               g_playlist := determine_playlist find_match_for_game (fst fg) all_matches
                               manual_playlists\<rparr>"

text \<open>
  The ledger \<open>games\<close> that a run of \<open>main\<close> saves, and \<open>None\<close> for the early return without
  saving. \<open>--force\<close> clears the processed state before anything is read from it.
\<close>

definition main_new_games :: "(manual \<Rightarrow> string) \<Rightarrow> (stats_file \<Rightarrow> bot_match list \<Rightarrow> bot_match option) \<Rightarrow> bool \<Rightarrow> (stats_file \<times> game) list \<Rightarrow> bot_match list \<Rightarrow> manual \<Rightarrow> processed_state \<Rightarrow> ledger option" where
  "main_new_games get_manual_playlists_hash find_match_for_game force_rebuild files all_matches
       manual_playlists processed_state =
     (let stats_files = map (\<lambda>fg. basename (sf_path (fst fg))) files;
          all_games = map (tag_game find_match_for_game all_matches manual_playlists) files
      in if force_rebuild then Some (fst (build_ledger True Map.empty all_games))
         else
           (case check_for_changes get_manual_playlists_hash stats_files manual_playlists
                   processed_state of
              (needs_full_rebuild, new_files, changed_playlists) \<Rightarrow>
                if new_files = [] \<and> changed_playlists = [] then None
                else Some (fst (build_ledger needs_full_rebuild (ps_games processed_state)
                                  all_games))))"

text \<open>
  A game that a bot session had tagged \<open>MLG 4v4\<close> in the last run, with no manual entry; a new
  file beside it; the bot files cannot be loaded now.
\<close>

definition parsed_example_file :: game where
  "parsed_example_file =
     \<lparr>g_game_type = ''CTF'', g_variant_name = ''MLG CTF5'', g_players = [],
      g_detailed_stats = [], g_source_file = [], g_playlist = None\<rparr>"

definition new_example_file :: stats_file where
  "new_example_file = example_file\<lparr>sf_path := ''/home/carnagereport/stats/20251216_201500.xlsx''\<rparr>"

definition bot_tagged_state :: processed_state where
  "bot_tagged_state =
     \<lparr>ps_games = [''20251215_011357.xlsx'' \<mapsto> Some ''MLG 4v4''],
      ps_manual_playlists_hash = [], ps_manual_unranked_hash = [],
      ps_player_state_saved = True\<rparr>"

section \<open>An incremental run\<close>

text \<open>
  \<open>processed_state.json\<close> also holds \<open>player_state\<close>, the consolidated standings of every
  identity with at least one counted game, win or loss, and \<open>player_name_to_id\<close>, the whole
  name table of the run that saved it. An incremental run starts the name table from the saved
  one. In the identification loop a name that already has an identity is passed over; a
  name resolved now gets its accumulators, filled from the saved standings of its identity
  when there are any.
\<close>

type_synonym player_state = "string \<rightharpoonup> (string \<rightharpoonup> standing)"

definition saved_playlists :: "player_state \<Rightarrow> string option \<Rightarrow> string \<rightharpoonup> standing" where
  "saved_playlists saved_player_state user_id =
     (case user_id of
        None \<Rightarrow> Map.empty
      | Some uid \<Rightarrow>
          if uid \<noteq> [] then (case saved_player_state uid of None \<Rightarrow> Map.empty | Some pls \<Rightarrow> pls)
          else Map.empty)"

definition inc_identify_player :: "(string \<Rightarrow> int) \<Rightarrow> (string \<rightharpoonup> string) \<Rightarrow> (string \<rightharpoonup> string) \<Rightarrow> player_state \<Rightarrow> ident_state \<Rightarrow> player_row \<Rightarrow> ident_state" where
  "inc_identify_player h identity_name_to_mac mac_to_discord saved_player_state st player =
     (let player_name = p_name player in
      if is_dedicated_server player_name then st
      else
        (let st1 = st\<lparr>all_player_names := set_add player_name (all_player_names st)\<rparr> in
         if player_to_id st1 player_name \<noteq> None then st1
         else
           (let user_id = resolve_player_to_discord player_name identity_name_to_mac mac_to_discord;
                st2 = link_player h player_name user_id st1
            in if id_tracker st2 player_name = None
               then st2\<lparr>id_tracker := (id_tracker st2)
                          (player_name \<mapsto> saved_playlists saved_player_state user_id)\<rparr>
               else st2)))"

definition inc_identify_game :: "(string \<Rightarrow> int) \<Rightarrow> (string \<Rightarrow> (string \<rightharpoonup> string)) \<Rightarrow> (string \<rightharpoonup> string) \<Rightarrow> player_state \<Rightarrow> ident_state \<Rightarrow> game \<Rightarrow> ident_state" where
  "inc_identify_game h identity_for mac_to_discord saved_player_state st g =
     foldl (inc_identify_player h (identity_for (g_source_file g)) mac_to_discord
              saved_player_state) st (g_players g)"

definition inc_identify_all :: "(string \<Rightarrow> int) \<Rightarrow> (string \<Rightarrow> (string \<rightharpoonup> string)) \<Rightarrow> (string \<rightharpoonup> string) \<Rightarrow> rankstats \<Rightarrow> (string \<rightharpoonup> string) \<Rightarrow> player_state \<Rightarrow> game list \<Rightarrow> ident_state" where
  "inc_identify_all h identity_for mac_to_discord rs saved_name_to_id saved_player_state all_games =
     foldl (inc_identify_game h identity_for mac_to_discord saved_player_state)
       \<lparr>player_to_id = saved_name_to_id, all_player_names = [], id_rankstats = rs,
        id_tracker = Map.empty\<rparr> all_games"

text \<open>
  The two restoring loops after the identification: for every identity with saved standings
  and every name of the name table with that identity, the accumulators of the name are
  created if they are missing, and the saved standing of each playlist is written into them.
  A name has one identity, so the order of the loops does not show in the result.
\<close>

definition restore_saved :: "player_state \<Rightarrow> (string \<rightharpoonup> string) \<Rightarrow> tracker \<Rightarrow> tracker" where
  "restore_saved saved_player_state p2id tr =
     (\<lambda>player_name.
        case p2id player_name of
          None \<Rightarrow> tr player_name
        | Some pid \<Rightarrow>
            (case saved_player_state pid of
               None \<Rightarrow> tr player_name
             | Some pls \<Rightarrow>
                 Some ((case tr player_name of None \<Rightarrow> Map.empty | Some old \<Rightarrow> old) ++ pls)))"

text \<open>
  The incremental run: identification, restoring, the replay of the ranked games of the new
  files only, and the consolidation of step 4.
\<close>

definition incremental_tracker :: "(string \<Rightarrow> int) \<Rightarrow> (string \<Rightarrow> (string \<rightharpoonup> string)) \<Rightarrow> (string \<rightharpoonup> string) \<Rightarrow> rankstats \<Rightarrow> 'f float_ops \<Rightarrow> 'f xp_config \<Rightarrow> (string \<rightharpoonup> string) \<Rightarrow> player_state \<Rightarrow> string list \<Rightarrow> game list \<Rightarrow> tracker" where
  "incremental_tracker h identity_for mac_to_discord rs ops cfg saved_name_to_id
       saved_player_state new_files all_games =
     (let st = inc_identify_all h identity_for mac_to_discord rs saved_name_to_id
                 saved_player_state all_games;
          tr = restore_saved saved_player_state (player_to_id st) (id_tracker st);
          games_to_process_for_xp =
            filter (\<lambda>g. g_source_file g \<in> set new_files) (ranked_games all_games)
      in replay ops cfg tr games_to_process_for_xp)"

definition incremental_standings :: "(string \<Rightarrow> int) \<Rightarrow> (string \<Rightarrow> (string \<rightharpoonup> string)) \<Rightarrow> (string \<rightharpoonup> string) \<Rightarrow> rankstats \<Rightarrow> 'f float_ops \<Rightarrow> 'f xp_config \<Rightarrow> (string \<rightharpoonup> string) \<Rightarrow> player_state \<Rightarrow> string list \<Rightarrow> game list \<Rightarrow> (string \<rightharpoonup> (string \<rightharpoonup> standing)) option" where
  "incremental_standings h identity_for mac_to_discord rs ops cfg saved_name_to_id
       saved_player_state new_files all_games =
     (let st = inc_identify_all h identity_for mac_to_discord rs saved_name_to_id
                 saved_player_state all_games
      in consolidate cfg (player_to_id st) (all_player_names st)
           (incremental_tracker h identity_for mac_to_discord rs ops cfg saved_name_to_id
              saved_player_state new_files all_games))"

section \<open>Example runs\<close>

text \<open>
  The identity tables of the examples: \<open>Fox\<close> and \<open>Fox2\<close> are two names of one machine and so
  of one Discord identity.
\<close>

definition example_identity :: "string \<rightharpoonup> string" where
  "example_identity =
     [''fox'' \<mapsto> ''001122334455'', ''fox2'' \<mapsto> ''001122334455'',
      ''a1'' \<mapsto> ''0011223344a1'', ''a2'' \<mapsto> ''0011223344a2'',
      ''b1'' \<mapsto> ''0011223344b1'', ''b2'' \<mapsto> ''0011223344b2'',
      ''c1'' \<mapsto> ''0011223344c1'', ''c2'' \<mapsto> ''0011223344c2'']"

definition example_macs :: "string \<rightharpoonup> string" where
  "example_macs =
     [''001122334455'' \<mapsto> ''1001'',
      ''0011223344a1'' \<mapsto> ''2001'', ''0011223344a2'' \<mapsto> ''2002'',
      ''0011223344b1'' \<mapsto> ''3001'', ''0011223344b2'' \<mapsto> ''3002'',
      ''0011223344c1'' \<mapsto> ''4001'', ''0011223344c2'' \<mapsto> ''4002'']"

text \<open>Three Double Team games that the red team wins; \<open>Fox\<close> plays the first and the third,
  \<open>Fox2\<close> the second.\<close>

definition fox_game :: "string \<Rightarrow> string \<Rightarrow> game" where
  "fox_game file name = slayer_game file (Some ''Double Team'')
     [row name ''Red'' ''25'' 25, row ''a2'' ''Red'' ''25'' 25,
      row ''b1'' ''Blue'' ''10'' 10, row ''b2'' ''Blue'' ''10'' 10]"

definition fox_games :: "game list" where
  "fox_games =
     [fox_game ''20251128_201839.xlsx'' ''Fox'', fox_game ''20251128_202256.xlsx'' ''Fox2'',
      fox_game ''20251129_190102.xlsx'' ''Fox'']"

text \<open>What the full run over the first two games saves.\<close>

definition fox_name_to_id :: "string \<rightharpoonup> string" where
  "fox_name_to_id =
     [''Fox'' \<mapsto> ''1001'', ''a2'' \<mapsto> ''2002'', ''b1'' \<mapsto> ''3001'', ''b2'' \<mapsto> ''3002'',
      ''Fox2'' \<mapsto> ''1001'']"

definition fox_player_state :: player_state where
  "fox_player_state =
     [''1001'' \<mapsto> [''Double Team'' \<mapsto>
        \<lparr>s_xp = 200, s_rank = 3, s_highest_rank = 2, s_wins = 2, s_losses = 0, s_games = 2\<rparr>],
      ''2002'' \<mapsto> [''Double Team'' \<mapsto>
        \<lparr>s_xp = 200, s_rank = 3, s_highest_rank = 3, s_wins = 2, s_losses = 0, s_games = 2\<rparr>],
      ''3001'' \<mapsto> [''Double Team'' \<mapsto>
        \<lparr>s_xp = 0, s_rank = 1, s_highest_rank = 1, s_wins = 0, s_losses = 2, s_games = 2\<rparr>],
      ''3002'' \<mapsto> [''Double Team'' \<mapsto>
        \<lparr>s_xp = 0, s_rank = 1, s_highest_rank = 1, s_wins = 0, s_losses = 2, s_games = 2\<rparr>]]"

text \<open>
  An earlier ranked game of \<open>a1\<close> and \<open>a2\<close> against \<open>c1\<close> and \<open>c2\<close>, an earlier unranked game
  of \<open>b1\<close> against \<open>b2\<close>, and the new, tied game of \<open>a1\<close> and \<open>a2\<close> against \<open>b1\<close> and \<open>b2\<close>.
\<close>

definition tie_run_games :: "game list" where
  "tie_run_games =
     [slayer_game ''20251128_193000.xlsx'' None
        [row ''b1'' ''Red'' ''15'' 15, row ''b2'' ''Blue'' ''9'' 9],
      slayer_game ''20251128_201839.xlsx'' (Some ''Double Team'')
        [row ''a1'' ''Red'' ''25'' 25, row ''a2'' ''Red'' ''25'' 25,
         row ''c1'' ''Blue'' ''10'' 10, row ''c2'' ''Blue'' ''10'' 10],
      example_tie]"

definition tie_run_name_to_id :: "string \<rightharpoonup> string" where
  "tie_run_name_to_id =
     [''b1'' \<mapsto> ''3001'', ''b2'' \<mapsto> ''3002'', ''a1'' \<mapsto> ''2001'', ''a2'' \<mapsto> ''2002'',
      ''c1'' \<mapsto> ''4001'', ''c2'' \<mapsto> ''4002'']"

definition tie_run_player_state :: player_state where
  "tie_run_player_state =
     [''2001'' \<mapsto> [''Double Team'' \<mapsto>
        \<lparr>s_xp = 100, s_rank = 2, s_highest_rank = 2, s_wins = 1, s_losses = 0, s_games = 1\<rparr>],
      ''2002'' \<mapsto> [''Double Team'' \<mapsto>
        \<lparr>s_xp = 100, s_rank = 2, s_highest_rank = 2, s_wins = 1, s_losses = 0, s_games = 1\<rparr>],
      ''4001'' \<mapsto> [''Double Team'' \<mapsto>
        \<lparr>s_xp = 0, s_rank = 1, s_highest_rank = 1, s_wins = 0, s_losses = 1, s_games = 1\<rparr>],
      ''4002'' \<mapsto> [''Double Team'' \<mapsto>
        \<lparr>s_xp = 0, s_rank = 1, s_highest_rank = 1, s_wins = 0, s_losses = 1, s_games = 1\<rparr>]]"

section \<open>Properties of the held-time parser\<close>

lemma time_to_seconds_m_ss_example: "time_to_seconds float_int (PyStr ''1:05'') = 65"
  by (simp add: time_to_seconds_def time_to_seconds_try_def py_strip_def py_isspace_def
      py_int_def py_int_digits_def is_digit_def digit_val_def)

lemma time_to_seconds_empty: "time_to_seconds float_int (PyStr []) = 0"
  by (simp add: time_to_seconds_def)

lemma time_to_seconds_none: "time_to_seconds float_int PyNone = 0"
  by (simp add: time_to_seconds_def)

lemma time_to_seconds_garbled_example: "time_to_seconds float_int (PyStr ''1:xx'') = 0"
  by (simp add: time_to_seconds_def time_to_seconds_try_def py_strip_def py_isspace_def
      py_int_def py_int_digits_def is_digit_def digit_val_def)

lemma backup_time_to_seconds_ss_example: "backup_time_to_seconds float_int (PyStr '':30'') = 30"
  by (simp add: backup_time_to_seconds_def backup_time_to_seconds_try_def int_or_zero_def
      py_strip_def py_isspace_def py_int_def py_int_digits_def is_digit_def digit_val_def)

text \<open>
  Claim C8. The conversion is to send \<open>M:SS\<close> to \<open>M * 60 + SS\<close>, \<open>:SS\<close> to \<open>SS\<close>, and
  anything missing, empty or garbled to 0 without raising. On \<open>:30\<close> the function of
  \<open>populate_stats.py\<close> takes the two-part branch, \<open>int\<close> of the empty first part raises, and
  the bare \<open>except\<close> returns 0 instead of 30, whatever \<open>int(float(...))\<close> would do; the
  backup script's variant returns 30 (lemma \<open>backup_time_to_seconds_ss_example\<close>).
\<close>

theorem time_to_seconds_colon_ss_is_zero: "time_to_seconds float_int (PyStr '':30'') = 0"
  by (simp add: time_to_seconds_def time_to_seconds_try_def py_strip_def py_isspace_def
      py_int_def)

section \<open>Properties of the rank lookup\<close>

lemma rank_scan_ge1: "1 \<le> rank_scan n xp T"
  by (induction n) (auto split: option.splits)

lemma rank_scan_hit:
  "in_band T k xp \<Longrightarrow> 1 \<le> k \<Longrightarrow> k \<le> n \<Longrightarrow>
     k \<le> rank_scan n xp T \<and> rank_scan n xp T \<le> n \<and> in_band T (rank_scan n xp T) xp"
proof (induction n)
  case 0
  then show ?case by simp
next
  case (Suc n)
  show ?case
  proof (cases "in_band T (Suc n) xp")
    case True
    then have "rank_scan (Suc n) xp T = Suc n"
      by (auto simp: in_band_def split: option.splits)
    with True Suc.prems show ?thesis by simp
  next
    case False
    then have eq: "rank_scan (Suc n) xp T = rank_scan n xp T"
      by (auto simp: in_band_def split: option.splits)
    from False Suc.prems have "k \<le> n" by (cases "k = Suc n") auto
    with Suc.IH Suc.prems eq show ?thesis by simp
  qed
qed

lemma rank_scan_miss:
  "(\<forall>k. 1 \<le> k \<and> k \<le> n \<longrightarrow> \<not> in_band T k xp) \<Longrightarrow> rank_scan n xp T = 1"
  by (induction n) (auto simp: in_band_def split: option.splits)

lemma calculate_rank_ge1: "1 \<le> calculate_rank xp T"
  unfolding calculate_rank_def by (rule rank_scan_ge1)

lemma calculate_rank_default: "\<not> covered T xp \<Longrightarrow> calculate_rank xp T = 1"
  unfolding calculate_rank_def covered_def by (rule rank_scan_miss) auto

lemma calculate_rank_highest_band:
  assumes "covered T xp"
  shows "in_band T (calculate_rank xp T) xp"
    and "calculate_rank xp T \<le> 50"
    and "\<And>k. 1 \<le> k \<Longrightarrow> k \<le> 50 \<Longrightarrow> in_band T k xp \<Longrightarrow> k \<le> calculate_rank xp T"
proof -
  from assms obtain j where j: "1 \<le> j" "j \<le> 50" "in_band T j xp"
    by (auto simp: covered_def)
  from rank_scan_hit [OF j(3) j(1) j(2)]
  show "in_band T (calculate_rank xp T) xp" and "calculate_rank xp T \<le> 50"
    by (simp_all add: calculate_rank_def)
  fix k assume "1 \<le> k" "k \<le> 50" "in_band T k xp"
  from rank_scan_hit [OF this(3) this(1) this(2)]
  show "k \<le> calculate_rank xp T" by (simp add: calculate_rank_def)
qed

lemma band_max_example_list:
  "map (band_max example_thresholds) [1 ..< 51] = map (\<lambda>r. Some (100 * int r - 1)) [1 ..< 51]"
  by code_simp

lemma band_max_example:
  assumes "1 \<le> r" and "r \<le> 50"
  shows "band_max example_thresholds r = Some (100 * int r - 1)"
proof -
  from assms have "r \<in> set [1 ..< 51]" by simp
  with band_max_example_list show ?thesis
    unfolding map_eq_conv by blast
qed

lemma ordered_bands_example: "ordered_bands example_thresholds"
  unfolding ordered_bands_def by (auto simp: band_max_example)

lemma in_band_example_top: "in_band example_thresholds 50 4950"
  by code_simp

lemma covered_example: "covered example_thresholds 4950"
  unfolding covered_def by (rule bexI [of _ 50]) (simp_all add: in_band_example_top)

text \<open>
  Claim C6, as stated: the rank lookup is non-decreasing in XP for all XP values. With
  the 50 bands of \<open>example_thresholds\<close>, 4950 XP is tier 50, while 5000 XP lies above the
  last band, no band matches, and the lookup falls back to tier 1.
\<close>

theorem calculate_rank_not_monotone_beyond_table:
  "\<not> calculate_rank 4950 example_thresholds \<le> calculate_rank 5000 example_thresholds"
  by code_simp

text \<open>
  Claim C6, amended: for a table whose band maxima do not decrease with the tier, the
  lookup is non-decreasing on the XP values that some band of the table contains: if
  \<open>a \<le> b\<close> and \<open>b\<close> lies in a band, the rank of \<open>a\<close> is at most the rank of \<open>b\<close>; the rank of
  \<open>b\<close> is then the highest tier whose band contains \<open>b\<close>. (An XP in no band gets tier 1:
  lemma \<open>calculate_rank_default\<close>.)
\<close>

theorem calculate_rank_monotone_within_table:
  assumes "ordered_bands T" and "a \<le> b" and "covered T b"
  shows "calculate_rank a T \<le> calculate_rank b T
         \<and> in_band T (calculate_rank b T) b
         \<and> (\<forall>k \<in> {1 .. 50}. in_band T k b \<longrightarrow> k \<le> calculate_rank b T)"
proof -
  let ?ra = "calculate_rank a T" and ?rb = "calculate_rank b T"
  have rb: "in_band T ?rb b" "?rb \<le> 50"
    using calculate_rank_highest_band [OF assms(3)] by auto
  have rb1: "1 \<le> ?rb" by (rule calculate_rank_ge1)
  have highest: "\<forall>k \<in> {1 .. 50}. in_band T k b \<longrightarrow> k \<le> ?rb"
    using calculate_rank_highest_band(3) [OF assms(3)] by auto
  have "?ra \<le> ?rb"
  proof (cases "covered T a")
    case False
    then have "?ra = 1" by (rule calculate_rank_default)
    with rb1 show ?thesis by simp
  next
    case True
    have ra: "in_band T ?ra a" "?ra \<le> 50"
      using calculate_rank_highest_band [OF True] by auto
    have ra1: "1 \<le> ?ra" by (rule calculate_rank_ge1)
    show ?thesis
    proof (rule ccontr)
      assume "\<not> ?ra \<le> ?rb"
      then have lt: "?rb < ?ra" by simp
      from ra obtain la ha where Ta: "T (py_str_nat ?ra) = Some (la, ha)" "la \<le> a" "a \<le> ha"
        by (auto simp: in_band_def split: option.splits)
      from rb obtain lb hb where Tb: "T (py_str_nat ?rb) = Some (lb, hb)" "lb \<le> b" "b \<le> hb"
        by (auto simp: in_band_def split: option.splits)
      have "?ra \<in> {1 .. 50}" using ra1 ra(2) by simp
      moreover have "?rb \<in> {1 ..< ?ra}" using rb1 lt by simp
      ultimately have "case (band_max T ?rb, band_max T ?ra) of
          (Some hr, Some hs) \<Rightarrow> hr \<le> hs | _ \<Rightarrow> True"
        using assms(1) unfolding ordered_bands_def by blast
      then have "hb \<le> ha" by (simp add: band_max_def Ta Tb)
      with Ta Tb assms(2) have "in_band T ?ra b"
        by (simp add: in_band_def)
      from calculate_rank_highest_band(3) [OF assms(3) ra1 ra(2) this] lt
      show False by simp
    qed
  qed
  with rb(1) highest show ?thesis by simp
qed

theorem calculate_rank_monotone_within_table_witness:
  "ordered_bands example_thresholds \<and> (150 :: int) \<le> 4950 \<and> covered example_thresholds 4950
   \<and> calculate_rank 150 example_thresholds \<le> calculate_rank 4950 example_thresholds
   \<and> in_band example_thresholds (calculate_rank 4950 example_thresholds) 4950"
  using calculate_rank_monotone_within_table
    [OF ordered_bands_example _ covered_example, of 150]
    ordered_bands_example covered_example
  by simp

section \<open>Properties of the ledger\<close>






section \<open>Properties of the replay\<close>

lemma update_rank_xp [simp]: "s_xp (update_rank cfg cur) = s_xp cur"
  by (simp add: update_rank_def Let_def)

lemma update_rank_wins [simp]: "s_wins (update_rank cfg cur) = s_wins cur"
  by (simp add: update_rank_def Let_def)

lemma update_rank_losses [simp]: "s_losses (update_rank cfg cur) = s_losses cur"
  by (simp add: update_rank_def Let_def)

lemma update_rank_games [simp]: "s_games (update_rank cfg cur) = s_games cur"
  by (simp add: update_rank_def Let_def)


lemma apply_result_loss_clamps:
  assumes "n \<notin> set winners" and "n \<in> set losers"
    and "s_xp cur + loss_xp_change ops cfg (s_rank cur) < 0"
  shows "s_xp (apply_result ops cfg winners losers n cur) = 0"
  using assms by (simp add: apply_result_def Let_def)











lemma process_player_dom:
  "(process_player ops cfg w l pl tr q) n = None \<longleftrightarrow> tr n = None"
  by (auto simp: process_player_def Let_def split: option.splits)


lemma foldl_process_player_dom:
  "(foldl (process_player ops cfg w l pl) tr ps) n = None \<longleftrightarrow> tr n = None"
  by (induction ps arbitrary: tr) (simp_all add: process_player_dom)














section \<open>Properties of the backup script's playlist classifier\<close>

lemma basename_example_file: "basename (sf_path example_file) = ''20251215_011357.xlsx''"
  by (simp add: basename_def example_file_def)

text \<open>Without overrides the example file is an MLG 4v4 game by its structure.\<close>

lemma example_file_structural:
  "backup_determine_playlist mins_ge_14 example_file Map.empty Map.empty = Some ''MLG 4v4''"
  by (simp add: backup_determine_playlist_def example_file_def is_game_long_enough_def
     get_game_duration_seconds_def parse_duration_seconds_def MIN_GAME_DURATION_SECONDS_def
     py_int_def py_int_digits_def is_digit_def digit_val_def py_strip_def py_isspace_def
     get_game_player_count_def is_team_game_def is_valid_mlg_combo_def VALID_MLG_4V4_COMBOS_def
     gametype_aliases_def py_lower_def py_lower_char_def PLAYLIST_MLG_4V4_def)

text \<open>
  Claim C9. A file whose name is a key of the forced-unranked table is classified as
  unranked (\<open>None\<close>) by \<open>determine_playlist\<close> of \<open>BACKUPpopulate_stats.py\<close>, whatever the
  forced-playlist table, the duration and the structure of the game are.
\<close>

theorem forced_unranked_precedence:
  assumes "basename (sf_path f) \<in> dom manual_unranked"
  shows "backup_determine_playlist mins_ge_14 f manual_playlists manual_unranked = None"
  using assms by (simp add: backup_determine_playlist_def)

theorem forced_unranked_precedence_witness:
  "basename (sf_path example_file) \<in> dom [''20251215_011357.xlsx'' \<mapsto> None]
   \<and> backup_determine_playlist exact_mins_ge_14 example_file
        [''20251215_011357.xlsx'' \<mapsto> Some ''Ranked MLG 4v4'']
        [''20251215_011357.xlsx'' \<mapsto> None] = None"
  using forced_unranked_precedence [of example_file "[''20251215_011357.xlsx'' \<mapsto> None]"
      exact_mins_ge_14 "[''20251215_011357.xlsx'' \<mapsto> Some ''Ranked MLG 4v4'']"]
  by (simp add: basename_example_file)

section \<open>Properties of the change detection\<close>

lemma dict_set_nonempty: "dict_set k v xs \<noteq> []"
  by (cases xs) simp_all

lemma check_file_keeps_changes:
  "snd acc \<noteq> [] \<Longrightarrow> snd (check_file old_games new_of acc f) \<noteq> []"
  by (simp add: check_file_def Let_def dict_set_nonempty)

lemma check_files_keep_changes:
  "snd acc \<noteq> [] \<Longrightarrow> snd (foldl (check_file old_games new_of) acc fs) \<noteq> []"
  by (induction fs arbitrary: acc) (simp_all add: check_file_keeps_changes)

lemma check_files_detect_change:
  assumes "f \<in> set fs" and "f \<in> dom old_games" and "ledger_get old_games f \<noteq> new_of f"
  shows "snd (foldl (check_file old_games new_of) acc fs) \<noteq> []"
  using assms(1)
proof (induction fs arbitrary: acc)
  case Nil
  then show ?case by simp
next
  case (Cons x fs)
  show ?case
  proof (cases "x = f")
    case True
    with assms(2,3) have "snd (check_file old_games new_of acc x) \<noteq> []"
      by (simp add: check_file_def Let_def dict_set_nonempty)
    then show ?thesis by (simp add: check_files_keep_changes)
  next
    case False
    with Cons.prems have "f \<in> set fs" by simp
    then show ?thesis by (simp add: Cons.IH)
  qed
qed

text \<open>
  Both scripts rebuild when the ledger entry of a processed file differs from what the
  manual tables now say of the file.
\<close>

lemma main_mode_changed_override:
  assumes "f \<in> set stats_files" and "f \<in> dom (ps_games ps)"
    and "ledger_get (ps_games ps) f \<noteq> dict_get manual_playlists f"
  shows "main_mode H force_rebuild stats_files manual_playlists ps = FullRebuild"
  using check_files_detect_change [where f = f and fs = stats_files and old_games = "ps_games ps"
      and new_of = "dict_get manual_playlists" and acc = "([], [])", OF assms]
  by (simp add: main_mode_def check_for_changes_def processing_mode_def Let_def case_prod_beta)

lemma backup_main_mode_changed_override:
  assumes "f \<in> set stats_files" and "f \<in> dom (ps_games ps)"
    and "ledger_get (ps_games ps) f
           \<noteq> (if f \<in> dom manual_unranked then None else dict_get manual_playlists f)"
  shows "backup_main_mode H stats_files manual_playlists manual_unranked ps = FullRebuild"
  using check_files_detect_change [where f = f and fs = stats_files and old_games = "ps_games ps"
      and new_of = "\<lambda>filename. if filename \<in> dom manual_unranked then None
                              else dict_get manual_playlists filename"
      and acc = "([], [])", OF assms(1,2)] assms(3)
  by (simp add: backup_main_mode_def backup_check_for_changes_def processing_mode_def Let_def
      case_prod_beta)

text \<open>The backup script rebuilds when the hash of either manual table differs from the
  stored one.\<close>

lemma backup_main_mode_changed_hash:
  assumes "H manual_playlists \<noteq> ps_manual_playlists_hash ps
           \<or> H manual_unranked \<noteq> ps_manual_unranked_hash ps"
  shows "backup_main_mode H stats_files manual_playlists manual_unranked ps = FullRebuild"
  using assms
  by (auto simp: backup_main_mode_def backup_check_for_changes_def processing_mode_def Let_def
      case_prod_beta)

text \<open>
  Claim C3. A changed hash of a manual override file is to force a full rebuild. In
  \<open>populate_stats.py\<close> \<open>check_for_changes\<close> computes the stored and the new hash and never
  compares them. With one processed file whose ledger entry agrees with the manual table,
  and one new file, the result is \<open>needs_full_rebuild = False\<close> and \<open>main\<close> goes on
  incrementally, whatever the hash function and whatever hash was stored, so also when the
  two hashes differ. The backup script rebuilds there (lemma
  \<open>backup_main_mode_changed_hash\<close>).
\<close>

theorem main_mode_ignores_manual_hash:
  "check_for_changes H [''20251128_201839.xlsx'', ''20251214_170353.xlsx''] example_manual
       (example_state old_hash) = (False, [''20251214_170353.xlsx''], [])
   \<and> main_mode H False [''20251128_201839.xlsx'', ''20251214_170353.xlsx''] example_manual
       (example_state old_hash) = Incremental"
  by (simp add: main_mode_def check_for_changes_def check_file_def example_manual_def
      example_state_def ledger_get_def dict_get_def processing_mode_def)

section \<open>Properties of the match log\<close>

lemma dwl_example_win:
  "determine_winners_losers example_win = ([''a1'', ''a2''], [''b1'', ''b2''])"
  by (simp add: determine_winners_losers_def team_table_def example_win_def slayer_game_def
      row_def add_to_team_def is_ctf_game_def py_strip_def py_isspace_def)

lemma team_score_example_win:
  "team_score example_win ''Red'' = Some 50" "team_score example_win ''Blue'' = Some 20"
  by (simp_all add: team_score_def team_table_def example_win_def slayer_game_def
      row_def add_to_team_def is_ctf_game_def py_strip_def py_isspace_def)

lemma red_team_example_win:
  "map (\<lambda>p. get_display_name linked_ids linked_rankstats (p_name p))
     (team_members example_win ''Red'') = [''Alice'', ''Arthur'']"
  by (simp add: team_members_def get_display_name_def linked_ids_def linked_rankstats_def
      linked_entry_def example_win_def slayer_game_def row_def)

lemma log_team_score_example_win:
  "log_team_score float_int example_win ''Red'' = 50"
  "log_team_score float_int example_win ''Blue'' = 20"
  by (simp_all add: log_team_score_def team_members_def is_oddball_game_def is_ctf_game_def
      example_win_def slayer_game_def row_def py_lower_def py_lower_char_def)

text \<open>
  Claim C5. The \<open>winner\<close> field of a match-log entry is to be \<open>Red\<close> exactly when the red
  team's score is the higher one. The log tests the winners, which are in-game names,
  against \<open>red_team\<close>, which holds display names. In the example the red players \<open>a1\<close> and
  \<open>a2\<close> are linked to the Discord names \<open>Alice\<close> and \<open>Arthur\<close>: the outcome engine and the
  logged scores agree that Red won 50 to 20, and the entry records \<open>Blue\<close>.
\<close>

theorem match_log_winner_disagrees_with_scores:
  "team_score example_win ''Red'' = Some 50
   \<and> team_score example_win ''Blue'' = Some 20
   \<and> determine_winners_losers example_win = ([''a1'', ''a2''], [''b1'', ''b2''])
   \<and> build_match_entry float_int linked_ids linked_rankstats ''Double Team'' example_win
       = \<lparr>me_red_score = 50, me_blue_score = 20, me_winner = ''Blue''\<rparr>"
  by (simp add: build_match_entry_def dwl_example_win team_score_example_win winner_team_def
      log_team_score_example_win red_team_example_win PLAYLIST_HEAD_TO_HEAD_def)

section \<open>The replay across two runs\<close>

text \<open>
  The hash reaches the identity table and \<open>rankstats\<close> only: the names met, the names with
  an identity and the per-name accumulators do not depend on it.
\<close>

lemma link_player_names:
  "id_tracker (link_player h n u st) = id_tracker st"
  "all_player_names (link_player h n u st) = all_player_names st"
  "dom (player_to_id (link_player h n u st)) = insert n (dom (player_to_id st))"
  by (auto simp: link_player_def Let_def split: option.splits)

lemma identify_player_hash_independent:
  assumes "id_tracker st = id_tracker st'"
    and "all_player_names st = all_player_names st'"
    and "dom (player_to_id st) = dom (player_to_id st')"
  shows "id_tracker (identify_player h t m st p) = id_tracker (identify_player h' t m st' p)
     \<and> all_player_names (identify_player h t m st p)
         = all_player_names (identify_player h' t m st' p)
     \<and> dom (player_to_id (identify_player h t m st p))
         = dom (player_to_id (identify_player h' t m st' p))"
proof (cases "player_to_id st (p_name p)")
  case None
  with assms(3) have "player_to_id st' (p_name p) = None"
    by (metis domIff)
  with None assms show ?thesis
    by (simp add: identify_player_def Let_def link_player_names)
next
  case (Some u)
  with assms(3) obtain u' where "player_to_id st' (p_name p) = Some u'"
    by (metis domIff not_Some_eq)
  with Some assms show ?thesis
    by (simp add: identify_player_def Let_def)
qed

lemma identify_players_hash_independent:
  assumes "id_tracker st = id_tracker st'"
    and "all_player_names st = all_player_names st'"
    and "dom (player_to_id st) = dom (player_to_id st')"
  shows "id_tracker (foldl (identify_player h t m) st ps)
           = id_tracker (foldl (identify_player h' t m) st' ps)
     \<and> all_player_names (foldl (identify_player h t m) st ps)
           = all_player_names (foldl (identify_player h' t m) st' ps)
     \<and> dom (player_to_id (foldl (identify_player h t m) st ps))
           = dom (player_to_id (foldl (identify_player h' t m) st' ps))"
  using assms
proof (induction ps arbitrary: st st')
  case Nil
  then show ?case by simp
next
  case (Cons p ps)
  have step: "id_tracker (identify_player h t m st p) = id_tracker (identify_player h' t m st' p)"
    "all_player_names (identify_player h t m st p)
       = all_player_names (identify_player h' t m st' p)"
    "dom (player_to_id (identify_player h t m st p))
       = dom (player_to_id (identify_player h' t m st' p))"
    using identify_player_hash_independent [OF Cons.prems, of h t m p h'] by simp_all
  from Cons.IH [OF step] show ?case by simp
qed

lemma identify_games_hash_independent:
  assumes "id_tracker st = id_tracker st'"
    and "all_player_names st = all_player_names st'"
    and "dom (player_to_id st) = dom (player_to_id st')"
  shows "id_tracker (foldl (identify_game h idf m) st gs)
           = id_tracker (foldl (identify_game h' idf m) st' gs)
     \<and> all_player_names (foldl (identify_game h idf m) st gs)
           = all_player_names (foldl (identify_game h' idf m) st' gs)
     \<and> dom (player_to_id (foldl (identify_game h idf m) st gs))
           = dom (player_to_id (foldl (identify_game h' idf m) st' gs))"
  using assms
proof (induction gs arbitrary: st st')
  case Nil
  then show ?case by simp
next
  case (Cons g gs)
  have step: "id_tracker (identify_game h idf m st g) = id_tracker (identify_game h' idf m st' g)"
    "all_player_names (identify_game h idf m st g)
       = all_player_names (identify_game h' idf m st' g)"
    "dom (player_to_id (identify_game h idf m st g))
       = dom (player_to_id (identify_game h' idf m st' g))"
    using identify_players_hash_independent [OF Cons.prems, of h "idf (g_source_file g)" m
        "g_players g" h']
    by (simp_all add: identify_game_def)
  from Cons.IH [OF step] show ?case by simp
qed

lemma replay_hash_independent:
  "replay ops cfg (id_tracker (identify_all h idf m rs gs)) (ranked_games gs)
     = replay ops cfg (id_tracker (identify_all h' idf m rs gs)) (ranked_games gs)"
proof -
  have "id_tracker (identify_all h idf m rs gs) = id_tracker (identify_all h' idf m rs gs)"
    unfolding identify_all_def
    using identify_games_hash_independent [where h = h and h' = h' and idf = idf and m = m
        and gs = gs
        and st = "\<lparr>player_to_id = Map.empty, all_player_names = [], id_rankstats = rs,
                    id_tracker = Map.empty\<rparr>"
        and st' = "\<lparr>player_to_id = Map.empty, all_player_names = [], id_rankstats = rs,
                     id_tracker = Map.empty\<rparr>"]
    by simp
  then show ?thesis by simp
qed

lemma not_dedicated_example:
  "\<not> is_dedicated_server ''a1''" "\<not> is_dedicated_server ''a2''"
  "\<not> is_dedicated_server ''b1''" "\<not> is_dedicated_server ''b2''"
  by code_simp+

lemma resolve_without_identity: "resolve_player_to_discord n Map.empty m = None"
  by (simp add: resolve_player_to_discord_def)

lemma identify_example:
  "player_to_id (identify_all h (\<lambda>_. Map.empty) Map.empty Map.empty [example_win])
     = [''a1'' \<mapsto> temp_id h ''a1'', ''a2'' \<mapsto> temp_id h ''a2'',
        ''b1'' \<mapsto> temp_id h ''b1'', ''b2'' \<mapsto> temp_id h ''b2'']"
  "all_player_names (identify_all h (\<lambda>_. Map.empty) Map.empty Map.empty [example_win])
     = [''a1'', ''a2'', ''b1'', ''b2'']"
  "id_tracker (identify_all h (\<lambda>_. Map.empty) Map.empty Map.empty [example_win])
     = [''a1'' \<mapsto> Map.empty, ''a2'' \<mapsto> Map.empty, ''b1'' \<mapsto> Map.empty,
        ''b2'' \<mapsto> Map.empty]"
  by (simp_all add: identify_all_def identify_game_def identify_player_def link_player_def
      resolve_without_identity not_dedicated_example set_add_def example_win_def
      slayer_game_def row_def Let_def)

lemma ranked_example: "ranked_games [example_win] = [example_win]"
  by (simp add: ranked_games_def example_win_def slayer_game_def)

lemma replay_example:
  "standing_of (replay example_ops example_cfg
     [''a1'' \<mapsto> Map.empty, ''a2'' \<mapsto> Map.empty, ''b1'' \<mapsto> Map.empty, ''b2'' \<mapsto> Map.empty]
     [example_win]) ''a1'' ''Double Team''
   = Some \<lparr>s_xp = 100, s_rank = 2, s_highest_rank = 2, s_wins = 1, s_losses = 0, s_games = 1\<rparr>"
  by code_simp

lemma thresholds_example_cfg: "rank_thresholds example_cfg = example_thresholds"
  by (simp add: example_cfg_def)

lemma calculate_rank_100: "calculate_rank 100 example_thresholds = 2"
  by code_simp

lemma temp_ids_first_run:
  "temp_id first_run_hash ''a1'' = ''7001''" "temp_id first_run_hash ''a2'' = ''7002''"
  "temp_id first_run_hash ''b1'' = ''7003''" "temp_id first_run_hash ''b2'' = ''7004''"
  by (simp_all add: temp_id_def first_run_hash_def py_str_nat.simps digit_char_def)

lemma temp_ids_second_run:
  "temp_id second_run_hash ''a1'' = ''9001''" "temp_id second_run_hash ''a2'' = ''9002''"
  "temp_id second_run_hash ''b1'' = ''9003''" "temp_id second_run_hash ''b2'' = ''9004''"
  by (simp_all add: temp_id_def second_run_hash_def py_str_nat.simps digit_char_def)

text \<open>
  Claim C1. Two rebuilds from empty state over the same matches and the same XP
  configuration are to give every identity the same standings, the provisional identities
  included. The provisional identity of an unresolved name is \<open>str(abs(hash(name)) % 10**18)\<close>,
  and the string hash differs between two runs of the script. Over the one example game with
  four unresolved names, the first run files the standing of \<open>a1\<close> under the identity
  \<open>7001\<close>, and the second run has no standing under that identity.
\<close>

theorem provisional_identity_differs_between_runs:
  "user_standing (rebuild_standings first_run_hash (\<lambda>_. Map.empty) Map.empty Map.empty
       example_ops example_cfg [example_win]) ''7001'' ''Double Team''
     = Some \<lparr>s_xp = 100, s_rank = 2, s_highest_rank = 2, s_wins = 1, s_losses = 0, s_games = 1\<rparr>
   \<and> user_standing (rebuild_standings second_run_hash (\<lambda>_. Map.empty) Map.empty Map.empty
       example_ops example_cfg [example_win]) ''7001'' ''Double Team'' = None"
  by (simp add: rebuild_standings_def identify_example ranked_example temp_ids_first_run
      temp_ids_second_run user_standing_def consolidate_def user_id_to_names_def
      playlists_data_def replay_example xp_of_def wins_of_def losses_of_def games_of_def
      highest_rank_of_def calculate_rank_100 thresholds_example_cfg Let_def)

end
